theory Spec2Isabelle
  imports Complex_Main "HOL-Library.AList"
begin

section \<open>Data model\<close>

text \<open>
  The program is the HTTP handler file \<^verbatim>\<open>src/app/api/[[...path]]/route.js\<close> of a
  storefront builder. Its handlers read and write three MongoDB collections
  (\<^verbatim>\<open>stores\<close>, \<^verbatim>\<open>products\<close>, \<^verbatim>\<open>orders\<close>). A collection is modelled as the list of its
  documents in insertion order; \<^verbatim>\<open>insertOne\<close> appends, \<^verbatim>\<open>findOne\<close> returns the first
  match, \<^verbatim>\<open>find\<close> returns every match once, \<^verbatim>\<open>updateOne\<close> rewrites the first match.
  Every handler takes the database and returns its HTTP response together with the
  database it leaves behind.

  A JavaScript number is modelled by the rational it denotes; NaN and the infinities
  are outside the model. A numeric field of a request body holds the double that
  \<^verbatim>\<open>JSON.parse\<close> produced. The products and sums of the order engine and of the payment
  bridge are IEEE-754 double operations: the exact result rounded to the nearest double
  (\<open>js_mul\<close>, \<open>js_add\<close> below). The quotient of the analytics report is kept exact.
  Strings are lists of 8-bit characters. Failures of the database driver itself (no
  connection) are outside the model. A handler is modelled on its own route: the path
  segments that select it are present.
\<close>

text \<open>
  JSON values, for the request fields that the handlers only test for truthiness and
  store as they are (\<^verbatim>\<open>total\<close>, \<^verbatim>\<open>customerInfo\<close>, \<^verbatim>\<open>notes\<close>). \<open>JUndefined\<close> is a field
  that the request body does not have.
\<close>

datatype jsval =
    JUndefined
  | JNull
  | JBool bool
  | JNum rat
  | JStr string
  | JArr "jsval list"
  | JObj "(string \<times> jsval) list"

text \<open>JavaScript's ToBoolean, which \<^verbatim>\<open>!x\<close> and \<^verbatim>\<open>x || y\<close> apply to their left operand.\<close>

fun truthy :: "jsval \<Rightarrow> bool" where
  "truthy JUndefined = False"
| "truthy JNull = False"
| "truthy (JBool b) = b"
| "truthy (JNum n) = (n \<noteq> 0)"
| "truthy (JStr s) = (s \<noteq> [])"
| "truthy (JArr xs) = True"
| "truthy (JObj kvs) = True"

text \<open>\<^verbatim>\<open>a || b\<close> on JSON values.\<close>

definition js_or :: "jsval \<Rightarrow> jsval \<Rightarrow> jsval" where
  "js_or a b = (if truthy a then a else b)"

text \<open>
  A string field of a request body: \<open>None\<close> when the field is absent. \<^verbatim>\<open>!s\<close> holds for
  an absent field and for the empty string.
\<close>

fun present :: "string option \<Rightarrow> bool" where
  "present None = False"
| "present (Some s) = (s \<noteq> [])"

record store =
  store_id :: string
  store_name :: string
  store_slug :: string
  store_description :: string
  store_domain :: "string option"
  store_isActive :: bool
  store_createdAt :: nat
  store_updatedAt :: nat

record product =
  product_id :: string
  product_name :: string
  product_slug :: string
  product_description :: string
  product_price :: rat
  product_inventory :: int
  product_images :: "string list"
  product_isActive :: bool
  product_storeId :: string
  product_createdAt :: nat
  product_updatedAt :: nat

record order_item =
  item_productId :: string
  item_productName :: string
  item_quantity :: rat
  item_price :: rat
  item_total :: rat

record order =
  order_id :: string
  order_orderNumber :: string
  order_storeId :: string
  order_items :: "order_item list"
  order_total :: jsval
  order_status :: string
  order_customerInfo :: jsval
  order_createdAt :: nat
  order_updatedAt :: nat
  order_paymentStatus :: "string option"
  order_razorpayOrderId :: "string option"
  order_razorpayPaymentId :: "string option"
  order_paymentCompletedAt :: "nat option"

record database =
  stores :: "store list"
  products :: "product list"
  orders :: "order list"

text \<open>
  What a handler reads from its surroundings besides the request: the identifier that
  \<^verbatim>\<open>uuidv4()\<close> returns and the clock (\<^verbatim>\<open>new Date()\<close>, \<^verbatim>\<open>Date.now()\<close>) in milliseconds.
  All clock reads of one request see the same instant.
\<close>

record env =
  uuid :: string
  now :: nat

text \<open>
  An HTTP response: \<open>Reply status body\<close> for a success body, \<open>Failure status message\<close>
  for \<^verbatim>\<open>{ error: message }\<close> with that status. In the spec's taxonomy status 400 is
  InvalidArgument, Conflict or SecurityError according to the message, 404 is NotFound.
\<close>

datatype 'a response = Reply nat 'a | Failure nat string

section \<open>Double-precision arithmetic\<close>

text \<open>
  IEEE-754 binary64 arithmetic (ECMAScript, the Number type): an operation returns the
  exact result rounded to the nearest double, a tie going to the even significand.
  \<open>binade x\<close> is the exponent \<open>e\<close> with \<open>pow2 e \<le> \<bar>x\<bar> < pow2 (e + 1)\<close>. A double has 53
  significant bits, so the doubles of that binade are \<open>pow2 (e - 52)\<close> apart; below
  \<open>pow2 (- 1022)\<close>, the subnormal range, they are \<open>pow2 (- 1074)\<close> apart. Overflow to
  infinity is outside the model.
\<close>

function binade_up :: "rat \<Rightarrow> int" where
  "binade_up x = (if 2 \<le> x then binade_up (x / 2) + 1 else 0)"
  by pat_completeness auto
termination
proof (relation "measure (\<lambda>x. nat \<lfloor>x\<rfloor>)")
  show "wf (measure (\<lambda>x::rat. nat \<lfloor>x\<rfloor>))" by simp
next
  fix x :: rat
  assume "2 \<le> x"
  then have "x / 2 \<le> x - 1" by simp
  then have "\<lfloor>x / 2\<rfloor> \<le> \<lfloor>x - 1\<rfloor>" by (rule floor_mono)
  moreover have "1 \<le> \<lfloor>x\<rfloor>" using \<open>2 \<le> x\<close> by linarith
  ultimately show "(x / 2, x) \<in> measure (\<lambda>x. nat \<lfloor>x\<rfloor>)" by simp
qed

function binade_down :: "rat \<Rightarrow> int" where
  "binade_down x = (if 0 < x \<and> x < 1 then binade_down (x * 2) - 1 else 0)"
  by pat_completeness auto
termination
proof (relation "measure (\<lambda>x. nat \<lceil>1 / x\<rceil>)")
  show "wf (measure (\<lambda>x::rat. nat \<lceil>1 / x\<rceil>))" by simp
next
  fix x :: rat
  assume "0 < x \<and> x < 1"
  define y where "y = 1 / x"
  define a where "a = \<lceil>y / 2\<rceil>"
  define b where "b = \<lceil>y\<rceil>"
  have y: "1 < y" using \<open>0 < x \<and> x < 1\<close> by (simp add: y_def)
  then have c: "2 \<le> b" unfolding b_def by linarith
  then have "(2::rat) \<le> of_int b" by linarith
  moreover have "y \<le> of_int b" unfolding b_def by (rule le_of_int_ceiling)
  ultimately have "y / 2 \<le> of_int b - 1" by linarith
  then have "y / 2 \<le> of_int (b - 1)" by (simp only: of_int_diff of_int_1)
  then have "a \<le> b - 1" unfolding a_def by (simp only: ceiling_le_iff)
  with c have "nat a < nat b" by linarith
  moreover have "1 / (x * 2) = y / 2" by (simp add: y_def)
  ultimately show "(x * 2, x) \<in> measure (\<lambda>x. nat \<lceil>1 / x\<rceil>)"
    unfolding in_measure a_def b_def y_def by (simp only:)
qed

declare binade_up.simps [simp del] binade_down.simps [simp del]

definition binade :: "rat \<Rightarrow> int" where
  "binade x = (if 1 \<le> \<bar>x\<bar> then binade_up \<bar>x\<bar> else binade_down \<bar>x\<bar>)"

definition pow2 :: "int \<Rightarrow> rat" where
  "pow2 e = (if 0 \<le> e then 2 ^ nat e else 1 / 2 ^ nat (- e))"

definition round_half_even :: "rat \<Rightarrow> int" where
  "round_half_even y =
     (let f = \<lfloor>y\<rfloor>; r = y - of_int f
      in if r < 1 / 2 then f else if 1 / 2 < r then f + 1 else if even f then f else f + 1)"

definition round_double :: "rat \<Rightarrow> rat" where
  "round_double x =
     (if x = 0 then 0
      else let ulp = pow2 (max (binade x) (- 1022) - 52)
           in of_int (round_half_even (x / ulp)) * ulp)"

text \<open>The operators \<^verbatim>\<open>*\<close> and \<^verbatim>\<open>+\<close> on numbers.\<close>

definition js_mul :: "rat \<Rightarrow> rat \<Rightarrow> rat" where
  "js_mul a b = round_double (a * b)"

definition js_add :: "rat \<Rightarrow> rat \<Rightarrow> rat" where
  "js_add a b = round_double (a + b)"

section \<open>Slug generator\<close>

text \<open>
  \<^verbatim>\<open>
  function generateSlug(name) {
    return name
      .toLowerCase()
      .replace(/[^a-z0-9]+/g, '-')
      .replace(/(^-|-$)/g, '');
  }
  \<close>
\<close>

text \<open>
  \<^verbatim>\<open>toLowerCase\<close> on the characters of the model: the letters A to Z change. A character
  outside ASCII is not in \<^verbatim>\<open>[a-z0-9]\<close> in either case and ends in a dash; the two
  characters beyond Latin-1 whose lower case is an ASCII letter (the Kelvin sign, the
  dotted capital I) are outside the model.
\<close>

definition lower_char :: "char \<Rightarrow> char" where
  "lower_char c =
     (case map_of (zip ''ABCDEFGHIJKLMNOPQRSTUVWXYZ'' ''abcdefghijklmnopqrstuvwxyz'') c of
        Some d \<Rightarrow> d
      | None \<Rightarrow> c)"

definition toLowerCase :: "string \<Rightarrow> string" where
  "toLowerCase s = map lower_char s"

text \<open>The character class \<^verbatim>\<open>[a-z0-9]\<close>.\<close>

definition is_alnum :: "char \<Rightarrow> bool" where
  "is_alnum c = (c \<in> set ''abcdefghijklmnopqrstuvwxyz0123456789'')"

text \<open>\<^verbatim>\<open>.replace(/[^a-z0-9]+/g, '-')\<close>: every maximal run of other characters becomes one dash.\<close>

function replace_runs :: "string \<Rightarrow> string" where
  "replace_runs [] = []"
| "replace_runs (c # cs) =
     (if is_alnum c then c # replace_runs cs
      else CHR ''-'' # replace_runs (dropWhile (\<lambda>d. \<not> is_alnum d) cs))"
  by pat_completeness auto
termination
  by (relation "measure length") (auto simp: length_dropWhile_le less_Suc_eq_le)

text \<open>\<^verbatim>\<open>.replace(/(^-|-$)/g, '')\<close>: one dash off the front, then one dash off the end.\<close>

definition trim_dashes :: "string \<Rightarrow> string" where
  "trim_dashes s =
     (let s1 = (case s of [] \<Rightarrow> [] | c # cs \<Rightarrow> if c = CHR ''-'' then cs else s)
      in if s1 \<noteq> [] \<and> last s1 = CHR ''-'' then butlast s1 else s1)"

definition generateSlug :: "string \<Rightarrow> string" where
  "generateSlug name = trim_dashes (replace_runs (toLowerCase name))"

section \<open>Store directory: POST /api/stores\<close>

record store_body =
  sb_name :: "string option"
  sb_description :: "string option"
  sb_domain :: "string option"

text \<open>
  \<^verbatim>\<open>
  const { name, description, domain } = body;
  if (!name) return 400 'Store name is required';
  const slug = generateSlug(name);
  const existingStore = await database.collection('stores').findOne({ slug });
  if (existingStore) return 400 'Store name already taken';
  const newStore = { id: uuidv4(), name, slug, description: description || '',
    domain: domain || null, isActive: true, createdAt: new Date(), updatedAt: new Date() };
  await database.collection('stores').insertOne(newStore);
  return 201 newStore;
  \<close>
\<close>

definition createStore :: "env \<Rightarrow> store_body \<Rightarrow> database \<Rightarrow> store response \<times> database" where
  "createStore e body db =
     (case sb_name body of
        None \<Rightarrow> (Failure 400 ''Store name is required'', db)
      | Some name \<Rightarrow>
          if name = [] then (Failure 400 ''Store name is required'', db)
          else
            let slug = generateSlug name;
                existingStore = find (\<lambda>s. store_slug s = slug) (stores db)
            in if existingStore \<noteq> None then (Failure 400 ''Store name already taken'', db)
               else
                 let newStore = \<lparr> store_id = uuid e, store_name = name, store_slug = slug,
                       store_description =
                         (case sb_description body of None \<Rightarrow> [] | Some d \<Rightarrow> d),
                       store_domain =
                         (if present (sb_domain body) then sb_domain body else None),
                       store_isActive = True,
                       store_createdAt = now e, store_updatedAt = now e \<rparr>
                 in (Reply 201 newStore, db\<lparr>stores := stores db @ [newStore]\<rparr>))"

section \<open>Order engine: POST /api/orders/{storeId}\<close>

text \<open>
  \<^verbatim>\<open>
  async function validateStoreAccess(storeId, userId = null) {
    const store = await database.collection('stores').findOne({ id: storeId, isActive: true });
    return !!store;
  }
  \<close>
\<close>

definition validateStoreAccess :: "string \<Rightarrow> database \<Rightarrow> bool" where
  "validateStoreAccess storeId db =
     (find (\<lambda>s. store_id s = storeId \<and> store_isActive s) (stores db) \<noteq> None)"

record cart_item =
  ci_productId :: string
  ci_quantity :: rat

text \<open>The request body: \<open>ob_items = None\<close> when \<^verbatim>\<open>items\<close> is absent or not an array.\<close>

record order_body =
  ob_items :: "cart_item list option"
  ob_customerInfo :: jsval
  ob_total :: jsval

text \<open>
  The batch lookup
  \<^verbatim>\<open>products.find({ id: { $in: productIds }, storeId, isActive: true }).toArray()\<close>:
  every matching document, once each.
\<close>

definition findProducts :: "string list \<Rightarrow> string \<Rightarrow> database \<Rightarrow> product list" where
  "findProducts productIds storeId db =
     filter (\<lambda>p. product_id p \<in> set productIds \<and> product_storeId p = storeId \<and> product_isActive p)
       (products db)"

text \<open>
  The callback of \<^verbatim>\<open>items.map\<close>, with the running \<^verbatim>\<open>calculatedTotal\<close> threaded through:
  \<^verbatim>\<open>
  let calculatedTotal = 0;
  const orderItems = items.map(item => {
    const product = products.find(p => p.id === item.productId);
    const itemTotal = product.price * item.quantity;
    calculatedTotal += itemTotal;
    return { productId: item.productId, productName: product.name,
             quantity: item.quantity, price: product.price, total: itemTotal };
  });
  \<close>
  When \<^verbatim>\<open>products.find\<close> returns \<^verbatim>\<open>undefined\<close>, reading \<^verbatim>\<open>product.price\<close> throws: the result
  is \<open>None\<close>.
\<close>

fun orderItemsLoop :: "product list \<Rightarrow> rat \<Rightarrow> cart_item list \<Rightarrow> (order_item list \<times> rat) option" where
  "orderItemsLoop ps calculatedTotal [] = Some ([], calculatedTotal)"
| "orderItemsLoop ps calculatedTotal (item # rest) =
     (case find (\<lambda>p. product_id p = ci_productId item) ps of
        None \<Rightarrow> None
      | Some product \<Rightarrow>
          let itemTotal = js_mul (product_price product) (ci_quantity item)
          in (case orderItemsLoop ps (js_add calculatedTotal itemTotal) rest of
                None \<Rightarrow> None
              | Some (orderItems, calculatedTotal') \<Rightarrow>
                  Some (\<lparr> item_productId = ci_productId item,
                          item_productName = product_name product,
                          item_quantity = ci_quantity item,
                          item_price = product_price product,
                          item_total = itemTotal \<rparr> # orderItems, calculatedTotal')))"

text \<open>Decimal digits of a natural number, as \<^verbatim>\<open>toString()\<close> writes them.\<close>

fun show_nat :: "nat \<Rightarrow> string" where
  "show_nat n =
     (if n < 10 then [''0123456789'' ! n]
      else show_nat (n div 10) @ [''0123456789'' ! (n mod 10)])"

declare show_nat.simps [simp del]

text \<open>\<^verbatim>\<open>s.slice(-8)\<close>: the last eight characters, or all of a shorter string.\<close>

definition slice_last8 :: "string \<Rightarrow> string" where
  "slice_last8 s = drop (length s - 8) s"

text \<open>
  \<^verbatim>\<open>
  const { items, customerInfo, total } = body;
  if (!items || !Array.isArray(items) || items.length === 0)
    return 400 'Order items are required';
  if (!await validateStoreAccess(storeId)) return 404 'Store not found';
  const productIds = items.map(item => item.productId);
  const products = (the batch lookup);
  if (products.length !== productIds.length) return 400 'One or more products not found';
  (the items.map loop)
  const orderNumber = `ORD-${Date.now().toString().slice(-8)}`;
  const newOrder = { id: uuidv4(), orderNumber, storeId, items: orderItems,
    total: total || calculatedTotal, status: 'pending', customerInfo: customerInfo || {},
    createdAt: new Date(), updatedAt: new Date() };
  await database.collection('orders').insertOne(newOrder);
  return 201 newOrder;
  \<close>
  An exception in the loop reaches the handler's outer \<^verbatim>\<open>catch\<close>, which answers
  500 'Internal server error'.
\<close>

definition createOrder :: "env \<Rightarrow> string \<Rightarrow> order_body \<Rightarrow> database \<Rightarrow> order response \<times> database" where
  "createOrder e storeId body db =
     (case ob_items body of
        None \<Rightarrow> (Failure 400 ''Order items are required'', db)
      | Some items \<Rightarrow>
          if items = [] then (Failure 400 ''Order items are required'', db)
          else if \<not> validateStoreAccess storeId db then (Failure 404 ''Store not found'', db)
          else
            let productIds = map ci_productId items;
                products = findProducts productIds storeId db
            in if length products \<noteq> length productIds
               then (Failure 400 ''One or more products not found'', db)
               else
                 (case orderItemsLoop products 0 items of
                    None \<Rightarrow> (Failure 500 ''Internal server error'', db)
                  | Some (orderItems, calculatedTotal) \<Rightarrow>
                      let orderNumber = ''ORD-'' @ slice_last8 (show_nat (now e));
                          newOrder = \<lparr> order_id = uuid e,
                            order_orderNumber = orderNumber,
                            order_storeId = storeId,
                            order_items = orderItems,
                            order_total = js_or (ob_total body) (JNum calculatedTotal),
                            order_status = ''pending'',
                            order_customerInfo = js_or (ob_customerInfo body) (JObj []),
                            order_createdAt = now e,
                            order_updatedAt = now e,
                            order_paymentStatus = None,
                            order_razorpayOrderId = None,
                            order_razorpayPaymentId = None,
                            order_paymentCompletedAt = None \<rparr>
                      in (Reply 201 newOrder, db\<lparr>orders := orders db @ [newOrder]\<rparr>)))"

section \<open>Payment bridge\<close>

subsection \<open>POST /api/payment/create-order\<close>

text \<open>
  The request body. \<^verbatim>\<open>amount\<close> is a JSON number or absent, \<^verbatim>\<open>notes\<close> a JSON object or
  absent, \<^verbatim>\<open>storeId\<close> any JSON value.
\<close>

record payment_body =
  pb_amount :: "rat option"
  pb_currency :: "string option"
  pb_receipt :: "string option"
  pb_notes :: "(string \<times> jsval) list option"
  pb_storeId :: jsval

text \<open>The argument of \<^verbatim>\<open>razorpay.orders.create\<close>.\<close>

record gateway_request =
  gw_amount :: int
  gw_currency :: string
  gw_receipt :: string
  gw_notes :: "(string \<times> jsval) list"
  gw_payment_capture :: nat

text \<open>\<^verbatim>\<open>Math.round\<close>: the nearest integer, a tie going up.\<close>

definition math_round :: "rat \<Rightarrow> int" where
  "math_round x = \<lfloor>x + 1 / 2\<rfloor>"

text \<open>
  \<^verbatim>\<open>
  const { amount, currency = "INR", receipt, notes, storeId } = body;
  if (!amount || !receipt) return 400 'Amount and receipt are required';
  try {
    const order = await razorpay.orders.create({
      amount: Math.round(amount * 100), currency, receipt,
      notes: { ...notes, storeId }, payment_capture: 1 });
    return { success: true, order };
  } catch (error) {
    return 500 { success: false, error: error.message };
  }
  \<close>
  The gateway is a parameter: it answers a request with its order handle, or throws
  with a message (\<open>Inl\<close>). The handler returns its response and the requests it sent to
  the gateway.
\<close>

definition initiatePayment ::
  "(gateway_request \<Rightarrow> string + 'o) \<Rightarrow> payment_body \<Rightarrow> 'o response \<times> gateway_request list" where
  "initiatePayment gateway body =
     (case (pb_amount body, pb_receipt body) of
        (Some amount, Some receipt) \<Rightarrow>
          if amount = 0 \<or> receipt = [] then (Failure 400 ''Amount and receipt are required'', [])
          else
            let req = \<lparr> gw_amount = math_round (js_mul amount 100),
                  gw_currency = (case pb_currency body of None \<Rightarrow> ''INR'' | Some c \<Rightarrow> c),
                  gw_receipt = receipt,
                  gw_notes = AList.update ''storeId'' (pb_storeId body)
                    (case pb_notes body of None \<Rightarrow> [] | Some kvs \<Rightarrow> kvs),
                  gw_payment_capture = 1 \<rparr>
            in (case gateway req of
                  Inr order \<Rightarrow> (Reply 200 order, [req])
                | Inl message \<Rightarrow> (Failure 500 message, [req]))
      | _ \<Rightarrow> (Failure 400 ''Amount and receipt are required'', []))"

subsection \<open>POST /api/payment/verify\<close>

record verify_body =
  vb_razorpay_order_id :: "string option"
  vb_razorpay_payment_id :: "string option"
  vb_razorpay_signature :: "string option"
  vb_orderId :: "string option"
  vb_storeId :: "string option"

text \<open>
  \<^verbatim>\<open>collection.updateOne(filter, { $set: ... })\<close>: the first matching document is
  rewritten; the result carries \<^verbatim>\<open>matchedCount\<close>, 0 or 1.
\<close>

fun updateOne :: "('a \<Rightarrow> bool) \<Rightarrow> ('a \<Rightarrow> 'a) \<Rightarrow> 'a list \<Rightarrow> nat \<times> 'a list" where
  "updateOne P f [] = (0, [])"
| "updateOne P f (x # xs) =
     (if P x then (1, f x # xs)
      else let (matchedCount, ys) = updateOne P f xs in (matchedCount, x # ys))"

text \<open>
  \<^verbatim>\<open>
  if (!razorpay_order_id || !razorpay_payment_id || !razorpay_signature)
    return 400 'Missing payment verification parameters';
  const generatedSignature = crypto.createHmac('sha256', process.env.RAZORPAY_KEY_SECRET)
    .update(razorpay_order_id + '|' + razorpay_payment_id).digest('hex');
  if (generatedSignature !== razorpay_signature)
    return 400 { success: false, error: 'Invalid payment signature' };
  const result = await database.collection('orders').updateOne(
    { id: orderId, storeId },
    { $set: { status: 'paid', paymentStatus: 'completed',
              razorpayOrderId: razorpay_order_id, razorpayPaymentId: razorpay_payment_id,
              paymentCompletedAt: new Date(), updatedAt: new Date() } });
  if (result.matchedCount === 0) return 404 'Order not found';
  return { success: true, message: 'Payment verified successfully' };
  \<close>
  The keyed hash of Node's \<^verbatim>\<open>crypto\<close> module is a parameter \<open>hmac\<close>: key and message to
  hex digest. The secret is the configured \<^verbatim>\<open>RAZORPAY_KEY_SECRET\<close>. An absent
  \<^verbatim>\<open>orderId\<close> or \<^verbatim>\<open>storeId\<close> matches no stored order, whose two fields are strings.
\<close>

definition markPaid :: "env \<Rightarrow> string \<Rightarrow> string \<Rightarrow> order \<Rightarrow> order" where
  "markPaid e razorpay_order_id razorpay_payment_id ord =
     ord\<lparr> order_status := ''paid'',
          order_paymentStatus := Some ''completed'',
          order_razorpayOrderId := Some razorpay_order_id,
          order_razorpayPaymentId := Some razorpay_payment_id,
          order_paymentCompletedAt := Some (now e),
          order_updatedAt := now e \<rparr>"

definition orderMatches :: "string option \<Rightarrow> string option \<Rightarrow> order \<Rightarrow> bool" where
  "orderMatches orderId storeId ord =
     (orderId = Some (order_id ord) \<and> storeId = Some (order_storeId ord))"

definition verifyPayment ::
  "(string \<Rightarrow> string \<Rightarrow> string) \<Rightarrow> string \<Rightarrow> env \<Rightarrow> verify_body \<Rightarrow> database
     \<Rightarrow> string response \<times> database" where
  "verifyPayment hmac secret e body db =
     (case (vb_razorpay_order_id body, vb_razorpay_payment_id body, vb_razorpay_signature body) of
        (Some razorpay_order_id, Some razorpay_payment_id, Some razorpay_signature) \<Rightarrow>
          if razorpay_order_id = [] \<or> razorpay_payment_id = [] \<or> razorpay_signature = []
          then (Failure 400 ''Missing payment verification parameters'', db)
          else
            let generatedSignature = hmac secret (razorpay_order_id @ ''|'' @ razorpay_payment_id)
            in if generatedSignature \<noteq> razorpay_signature
               then (Failure 400 ''Invalid payment signature'', db)
               else
                 let (matchedCount, orders') =
                       updateOne (orderMatches (vb_orderId body) (vb_storeId body))
                         (markPaid e razorpay_order_id razorpay_payment_id) (orders db)
                 in if matchedCount = 0 then (Failure 404 ''Order not found'', db)
                    else (Reply 200 ''Payment verified successfully'', db\<lparr>orders := orders'\<rparr>)
      | _ \<Rightarrow> (Failure 400 ''Missing payment verification parameters'', db))"

section \<open>Analytics engine: GET /api/analytics/{storeId}\<close>

text \<open>
  The summary block of the report. \<^verbatim>\<open>conversionRate\<close> is the number 0 or the string
  that \<^verbatim>\<open>toFixed(1)\<close> returns.
\<close>

record summary =
  sum_totalOrders :: nat
  sum_totalRevenue :: rat
  sum_completedOrders :: nat
  sum_pendingOrders :: nat
  sum_totalProducts :: nat
  sum_conversionRate :: jsval

text \<open>
  \<^verbatim>\<open>x.toFixed(1)\<close> for \<open>\<bar>x\<bar> < 10\<^sup>2\<^sup>1\<close> (ECMAScript, Number.prototype.toFixed): the
  integer \<open>n\<close> with \<open>n / 10\<close> nearest to \<open>\<bar>x\<bar>\<close>, the larger one of two, written with its
  last digit after the point, behind a minus sign when \<open>x < 0\<close>.
\<close>

definition toFixed1 :: "rat \<Rightarrow> string" where
  "toFixed1 x =
     (let n = nat \<lfloor>\<bar>x\<bar> * 10 + 1 / 2\<rfloor>
      in (if x < 0 then ''-'' else []) @ show_nat (n div 10) @ ''.'' @ show_nat (n mod 10))"

text \<open>The \<^verbatim>\<open>$match\<close> stages: orders of the store created at or after \<^verbatim>\<open>startDate\<close>.\<close>

definition inWindow :: "string \<Rightarrow> nat \<Rightarrow> order \<Rightarrow> bool" where
  "inWindow storeId startDate ord = (order_storeId ord = storeId \<and> startDate \<le> order_createdAt ord)"

definition isCompleted :: "order \<Rightarrow> bool" where
  "isCompleted ord = (order_status ord \<in> set [''paid'', ''completed''])"

text \<open>\<^verbatim>\<open>$sum\<close> adds the numeric values and passes over the others.\<close>

fun numeric :: "jsval \<Rightarrow> rat" where
  "numeric (JNum r) = r"
| "numeric v = 0"

text \<open>
  \<^verbatim>\<open>
  if (!await validateStoreAccess(storeId)) return 404 'Store not found';
  totalOrders     = orders.countDocuments({ storeId, createdAt: { $gte: startDate } })
  totalRevenue    = orders.aggregate([{ $match: { storeId, status: { $in: ['paid', 'completed'] },
                      createdAt: { $gte: startDate } } },
                      { $group: { _id: null, total: { $sum: '$total' } } }])
  completedOrders = orders.countDocuments({ storeId, status: { $in: ['paid', 'completed'] },
                      createdAt: { $gte: startDate } })
  pendingOrders   = orders.countDocuments({ storeId, status: 'pending',
                      createdAt: { $gte: startDate } })
  totalProducts   = products.countDocuments({ storeId, isActive: true })
  summary: { totalOrders, totalRevenue: totalRevenue[0]?.total || 0, completedOrders,
    pendingOrders, totalProducts,
    conversionRate: totalOrders > 0
      ? ((completedOrders / totalOrders) * 100).toFixed(1) : 0 }
  \<close>
  \<^verbatim>\<open>startDate\<close>, the clock moved back by the report's period, is a parameter. The lists
  of the report (top products, recent orders, chart data) are not modelled.
\<close>

definition computeAnalytics :: "nat \<Rightarrow> string \<Rightarrow> database \<Rightarrow> summary response" where
  "computeAnalytics startDate storeId db =
     (if \<not> validateStoreAccess storeId db then Failure 404 ''Store not found''
      else
        let totalOrders = length (filter (inWindow storeId startDate) (orders db));
            totalRevenue = sum_list (map (\<lambda>ord. numeric (order_total ord))
              (filter (\<lambda>ord. inWindow storeId startDate ord \<and> isCompleted ord) (orders db)));
            completedOrders = length
              (filter (\<lambda>ord. inWindow storeId startDate ord \<and> isCompleted ord) (orders db));
            pendingOrders = length
              (filter (\<lambda>ord. inWindow storeId startDate ord \<and> order_status ord = ''pending'')
                (orders db));
            totalProducts = length
              (filter (\<lambda>p. product_storeId p = storeId \<and> product_isActive p) (products db))
        in Reply 200 \<lparr> sum_totalOrders = totalOrders, sum_totalRevenue = totalRevenue,
             sum_completedOrders = completedOrders, sum_pendingOrders = pendingOrders,
             sum_totalProducts = totalProducts,
             sum_conversionRate =
               (if totalOrders > 0
                then JStr (toFixed1 (of_nat completedOrders / of_nat totalOrders * 100))
                else JNum 0) \<rparr>)"

section \<open>Properties of the store directory\<close>

lemma find_slug_iff:
  "(find (\<lambda>s. store_slug s = slug) ss = None) = (slug \<notin> store_slug ` set ss)"
  by (auto simp: find_None_iff)

lemma createStore_cases:
  assumes "sb_name body = Some name" and "name \<noteq> []"
  shows "createStore e body db =
     (if generateSlug name \<in> store_slug ` set (stores db)
      then (Failure 400 ''Store name already taken'', db)
      else (Reply 201 \<lparr> store_id = uuid e, store_name = name, store_slug = generateSlug name,
                       store_description =
                         (case sb_description body of None \<Rightarrow> [] | Some d \<Rightarrow> d),
                       store_domain =
                         (if present (sb_domain body) then sb_domain body else None),
                       store_isActive = True,
                       store_createdAt = now e, store_updatedAt = now e \<rparr>,
            db\<lparr>stores := stores db @ [\<lparr> store_id = uuid e, store_name = name, store_slug = generateSlug name,
                       store_description =
                         (case sb_description body of None \<Rightarrow> [] | Some d \<Rightarrow> d),
                       store_domain =
                         (if present (sb_domain body) then sb_domain body else None),
                       store_isActive = True,
                       store_createdAt = now e, store_updatedAt = now e \<rparr>]\<rparr>))"
  using assms by (simp add: createStore_def find_slug_iff Let_def del: not_None_eq)

lemma createStore_slug_taken_after:
  assumes "sb_name body = Some name" and "name \<noteq> []"
    and "createStore e body db = (r, db')"
  shows "generateSlug name \<in> store_slug ` set (stores db')"
  using assms(3) unfolding createStore_cases [OF assms(1,2)]
  by (auto split: if_splits)

lemmas slug_eval = generateSlug_def trim_dashes_def toLowerCase_def lower_char_def is_alnum_def

text \<open>
  C8, as the code has it. Two store-creation requests that both carry a non-empty name,
  the two names normalising to the same slug: whatever the first attempt answered, the
  second is answered 400 "Store name already taken" and leaves the database as the first
  attempt left it, so no second store document is inserted. A request whose name is
  absent or empty is turned away before the slug is looked at, with 400 "Store name is
  required", and inserts nothing.
\<close>

theorem createStore_same_slug_conflict:
  "(sb_name b1 = Some n1 \<and> n1 \<noteq> [] \<and> sb_name b2 = Some n2 \<and> n2 \<noteq> [] \<and>
    generateSlug n1 = generateSlug n2 \<and> createStore e1 b1 db = (r1, db1)
      \<longrightarrow> createStore e2 b2 db1 = (Failure 400 ''Store name already taken'', db1)) \<and>
   (sb_name b = None \<or> sb_name b = Some []
      \<longrightarrow> createStore e b db = (Failure 400 ''Store name is required'', db))"
proof (intro conjI impI)
  assume a: "sb_name b1 = Some n1 \<and> n1 \<noteq> [] \<and> sb_name b2 = Some n2 \<and> n2 \<noteq> [] \<and>
    generateSlug n1 = generateSlug n2 \<and> createStore e1 b1 db = (r1, db1)"
  then have "generateSlug n1 \<in> store_slug ` set (stores db1)"
    using createStore_slug_taken_after [of b1 n1 e1 db r1 db1] by simp
  with a have "generateSlug n2 \<in> store_slug ` set (stores db1)" by simp
  with a show "createStore e2 b2 db1 = (Failure 400 ''Store name already taken'', db1)"
    by (simp add: createStore_cases)
next
  assume "sb_name b = None \<or> sb_name b = Some []"
  then show "createStore e b db = (Failure 400 ''Store name is required'', db)"
    by (auto simp: createStore_def)
qed

text \<open>
  The theorem at "Acme Store" followed by "ACME  store!", both of slug "acme-store",
  starting from an empty database; and at a request without a name and a request with
  the empty name.
\<close>

theorem createStore_same_slug_conflict_witness:
  "createStore \<lparr>uuid = ''u2'', now = 2000\<rparr>
     \<lparr>sb_name = Some ''ACME  store!'', sb_description = None, sb_domain = None\<rparr>
     (snd (createStore \<lparr>uuid = ''u1'', now = 1000\<rparr>
        \<lparr>sb_name = Some ''Acme Store'', sb_description = None, sb_domain = None\<rparr>
        \<lparr>stores = [], products = [], orders = []\<rparr>))
   = (Failure 400 ''Store name already taken'',
      \<lparr>stores = [\<lparr> store_id = ''u1'', store_name = ''Acme Store'', store_slug = ''acme-store'',
          store_description = [], store_domain = None, store_isActive = True,
          store_createdAt = 1000, store_updatedAt = 1000 \<rparr>], products = [], orders = []\<rparr>) \<and>
   createStore \<lparr>uuid = ''u3'', now = 3000\<rparr>
     \<lparr>sb_name = None, sb_description = Some ''no name'', sb_domain = None\<rparr>
     \<lparr>stores = [], products = [], orders = []\<rparr>
   = (Failure 400 ''Store name is required'', \<lparr>stores = [], products = [], orders = []\<rparr>) \<and>
   createStore \<lparr>uuid = ''u3'', now = 3000\<rparr>
     \<lparr>sb_name = Some '''', sb_description = None, sb_domain = None\<rparr>
     \<lparr>stores = [], products = [], orders = []\<rparr>
   = (Failure 400 ''Store name is required'', \<lparr>stores = [], products = [], orders = []\<rparr>)"
proof -
  have s: "generateSlug ''Acme Store'' = generateSlug ''ACME  store!''"
    by (simp add: slug_eval)
  have r: "createStore \<lparr>uuid = ''u1'', now = 1000\<rparr>
        \<lparr>sb_name = Some ''Acme Store'', sb_description = None, sb_domain = None\<rparr>
        \<lparr>stores = [], products = [], orders = []\<rparr>
     = (Reply 201 \<lparr> store_id = ''u1'', store_name = ''Acme Store'', store_slug = ''acme-store'',
          store_description = [], store_domain = None, store_isActive = True,
          store_createdAt = 1000, store_updatedAt = 1000 \<rparr>,
        \<lparr>stores = [\<lparr> store_id = ''u1'', store_name = ''Acme Store'', store_slug = ''acme-store'',
          store_description = [], store_domain = None, store_isActive = True,
          store_createdAt = 1000, store_updatedAt = 1000 \<rparr>], products = [], orders = []\<rparr>)"
    by (simp add: createStore_def slug_eval Let_def)
  have h: "sb_name \<lparr>sb_name = Some ''Acme Store'', sb_description = None, sb_domain = None\<rparr>
        = Some ''Acme Store'' \<and> ''Acme Store'' \<noteq> [] \<and>
      sb_name \<lparr>sb_name = Some ''ACME  store!'', sb_description = None, sb_domain = None\<rparr>
        = Some ''ACME  store!'' \<and> ''ACME  store!'' \<noteq> [] \<and>
      generateSlug ''Acme Store'' = generateSlug ''ACME  store!'' \<and>
      createStore \<lparr>uuid = ''u1'', now = 1000\<rparr>
        \<lparr>sb_name = Some ''Acme Store'', sb_description = None, sb_domain = None\<rparr>
        \<lparr>stores = [], products = [], orders = []\<rparr>
     = (Reply 201 \<lparr> store_id = ''u1'', store_name = ''Acme Store'', store_slug = ''acme-store'',
          store_description = [], store_domain = None, store_isActive = True,
          store_createdAt = 1000, store_updatedAt = 1000 \<rparr>,
        \<lparr>stores = [\<lparr> store_id = ''u1'', store_name = ''Acme Store'', store_slug = ''acme-store'',
          store_description = [], store_domain = None, store_isActive = True,
          store_createdAt = 1000, store_updatedAt = 1000 \<rparr>], products = [], orders = []\<rparr>)"
    using s r by simp
  have conflict: "createStore \<lparr>uuid = ''u2'', now = 2000\<rparr>
     \<lparr>sb_name = Some ''ACME  store!'', sb_description = None, sb_domain = None\<rparr>
      \<lparr>stores = [\<lparr> store_id = ''u1'', store_name = ''Acme Store'', store_slug = ''acme-store'',
          store_description = [], store_domain = None, store_isActive = True,
          store_createdAt = 1000, store_updatedAt = 1000 \<rparr>], products = [], orders = []\<rparr>
   = (Failure 400 ''Store name already taken'',
      \<lparr>stores = [\<lparr> store_id = ''u1'', store_name = ''Acme Store'', store_slug = ''acme-store'',
          store_description = [], store_domain = None, store_isActive = True,
          store_createdAt = 1000, store_updatedAt = 1000 \<rparr>], products = [], orders = []\<rparr>)"
    by (rule createStore_same_slug_conflict [THEN conjunct1, THEN mp, OF h])
  have absent: "createStore \<lparr>uuid = ''u3'', now = 3000\<rparr>
     \<lparr>sb_name = None, sb_description = Some ''no name'', sb_domain = None\<rparr>
     \<lparr>stores = [], products = [], orders = []\<rparr>
   = (Failure 400 ''Store name is required'', \<lparr>stores = [], products = [], orders = []\<rparr>)"
    by (rule createStore_same_slug_conflict [THEN conjunct2, THEN mp]) simp
  have empty: "createStore \<lparr>uuid = ''u3'', now = 3000\<rparr>
     \<lparr>sb_name = Some '''', sb_description = None, sb_domain = None\<rparr>
     \<lparr>stores = [], products = [], orders = []\<rparr>
   = (Failure 400 ''Store name is required'', \<lparr>stores = [], products = [], orders = []\<rparr>)"
    by (rule createStore_same_slug_conflict [THEN conjunct2, THEN mp]) simp
  show ?thesis
    unfolding r snd_conv using conflict absent empty by (intro conjI)
qed

text \<open>
  Without the restriction to non-empty names the statement fails. "!!!" and the empty
  name both normalise to the empty slug. After a store named "!!!" has been created, a
  request with the empty name is answered "Store name is required", not "Store name
  already taken"; and after a request with the empty name has been turned away, the
  request named "!!!" is the second attempt and it creates a store.
\<close>

theorem createStore_empty_name_counterexample:
  "generateSlug ''!!!'' = generateSlug '''' \<and>
   createStore \<lparr>uuid = ''u2'', now = 2000\<rparr>
     \<lparr>sb_name = Some '''', sb_description = None, sb_domain = None\<rparr>
     (snd (createStore \<lparr>uuid = ''u1'', now = 1000\<rparr>
        \<lparr>sb_name = Some ''!!!'', sb_description = None, sb_domain = None\<rparr>
        \<lparr>stores = [], products = [], orders = []\<rparr>))
   = (Failure 400 ''Store name is required'',
      \<lparr>stores = [\<lparr> store_id = ''u1'', store_name = ''!!!'', store_slug = '''',
          store_description = [], store_domain = None, store_isActive = True,
          store_createdAt = 1000, store_updatedAt = 1000 \<rparr>], products = [], orders = []\<rparr>) \<and>
   createStore \<lparr>uuid = ''u2'', now = 2000\<rparr>
     \<lparr>sb_name = Some ''!!!'', sb_description = None, sb_domain = None\<rparr>
     (snd (createStore \<lparr>uuid = ''u1'', now = 1000\<rparr>
        \<lparr>sb_name = Some '''', sb_description = None, sb_domain = None\<rparr>
        \<lparr>stores = [], products = [], orders = []\<rparr>))
   = (Reply 201 \<lparr> store_id = ''u2'', store_name = ''!!!'', store_slug = '''',
          store_description = [], store_domain = None, store_isActive = True,
          store_createdAt = 2000, store_updatedAt = 2000 \<rparr>,
      \<lparr>stores = [\<lparr> store_id = ''u2'', store_name = ''!!!'', store_slug = '''',
          store_description = [], store_domain = None, store_isActive = True,
          store_createdAt = 2000, store_updatedAt = 2000 \<rparr>], products = [], orders = []\<rparr>)"
  by (simp add: createStore_def slug_eval Let_def)

text \<open>
  C10. The duplicate-slug lookup is \<^verbatim>\<open>findOne({ slug })\<close>, with no condition on
  \<^verbatim>\<open>isActive\<close>: a request with a non-empty name whose slug is that of any stored store,
  active or not, is answered 400 "Store name already taken" and changes nothing. Hence
  creation keeps the slugs of all stored stores, active and deactivated alike, pairwise
  distinct.
\<close>

theorem createStore_slug_check_ignores_isActive:
  "(sb_name body = Some name \<and> name \<noteq> [] \<and>
      (\<exists>s \<in> set (stores db). store_slug s = generateSlug name)
      \<longrightarrow> createStore e body db = (Failure 400 ''Store name already taken'', db)) \<and>
   (distinct (map store_slug (stores db))
      \<longrightarrow> distinct (map store_slug (stores (snd (createStore e body db)))))"
proof (intro conjI impI)
  assume a: "sb_name body = Some name \<and> name \<noteq> [] \<and>
      (\<exists>s \<in> set (stores db). store_slug s = generateSlug name)"
  then have "generateSlug name \<in> store_slug ` set (stores db)" by force
  with a show "createStore e body db = (Failure 400 ''Store name already taken'', db)"
    by (simp add: createStore_cases)
next
  assume d: "distinct (map store_slug (stores db))"
  show "distinct (map store_slug (stores (snd (createStore e body db))))"
  proof (cases "sb_name body")
    case None
    with d show ?thesis by (simp add: createStore_def)
  next
    case (Some name)
    show ?thesis
    proof (cases "name = []")
      case True
      with Some d show ?thesis by (simp add: createStore_def)
    next
      case False
      with Some d show ?thesis by (simp add: createStore_cases)
    qed
  qed
qed

text \<open>
  The theorem at a database whose only store is deactivated and has the slug "acme", and
  a request named "ACME".
\<close>

theorem createStore_slug_check_ignores_isActive_witness:
  "store_isActive \<lparr>store_id = ''s1'', store_name = ''Acme'', store_slug = ''acme'',
          store_description = [], store_domain = None, store_isActive = False,
          store_createdAt = 1000, store_updatedAt = 3000\<rparr> = False \<and>
   createStore \<lparr>uuid = ''u2'', now = 4000\<rparr>
     \<lparr>sb_name = Some ''ACME'', sb_description = None, sb_domain = None\<rparr>
     \<lparr>stores = [\<lparr>store_id = ''s1'', store_name = ''Acme'', store_slug = ''acme'',
          store_description = [], store_domain = None, store_isActive = False,
          store_createdAt = 1000, store_updatedAt = 3000\<rparr>], products = [], orders = []\<rparr>
   = (Failure 400 ''Store name already taken'',
      \<lparr>stores = [\<lparr>store_id = ''s1'', store_name = ''Acme'', store_slug = ''acme'',
          store_description = [], store_domain = None, store_isActive = False,
          store_createdAt = 1000, store_updatedAt = 3000\<rparr>], products = [], orders = []\<rparr>)"
proof -
  have s: "generateSlug ''ACME'' = ''acme''"
    by (simp add: generateSlug_def trim_dashes_def toLowerCase_def lower_char_def is_alnum_def)
  show ?thesis
    using createStore_slug_check_ignores_isActive
      [of "\<lparr>sb_name = Some ''ACME'', sb_description = None, sb_domain = None\<rparr>" "''ACME''"
        "\<lparr>stores = [\<lparr>store_id = ''s1'', store_name = ''Acme'', store_slug = ''acme'',
          store_description = [], store_domain = None, store_isActive = False,
          store_createdAt = 1000, store_updatedAt = 3000\<rparr>], products = [], orders = []\<rparr>"
        "\<lparr>uuid = ''u2'', now = 4000\<rparr>"]
    by (simp add: s)
qed

section \<open>Properties of the order engine\<close>

lemma find_in_findProducts:
  assumes "find (\<lambda>p. product_id p = pid) (findProducts productIds storeId db) = Some p"
  shows "find (\<lambda>p. product_id p = pid \<and> product_storeId p = storeId \<and> product_isActive p)
           (products db) = Some p"
proof -
  from assms have "product_id p = pid" and "p \<in> set (findProducts productIds storeId db)"
    by (auto simp: find_Some_iff)
  then have pid: "pid \<in> set productIds"
    by (auto simp: findProducts_def)
  have gen: "find (\<lambda>p. product_id p = pid)
        (filter (\<lambda>p. product_id p \<in> set productIds \<and> product_storeId p = storeId \<and> product_isActive p) xs)
      = find (\<lambda>p. product_id p = pid \<and> product_storeId p = storeId \<and> product_isActive p) xs"
    for xs :: "product list"
    using pid by (induction xs) auto
  show ?thesis
    using assms unfolding findProducts_def gen .
qed

lemma orderItemsLoop_result:
  "orderItemsLoop ps acc items = Some (ois, tot) \<Longrightarrow>
     tot = foldl js_add acc (map item_total ois) \<and>
     list_all2 (\<lambda>item oi. \<exists>p. find (\<lambda>p. product_id p = ci_productId item) ps = Some p \<and>
        oi = \<lparr> item_productId = ci_productId item, item_productName = product_name p,
               item_quantity = ci_quantity item, item_price = product_price p,
               item_total = js_mul (product_price p) (ci_quantity item) \<rparr>) items ois"
proof (induction items arbitrary: acc ois tot)
  case Nil
  then show ?case by simp
next
  case (Cons item rest)
  from Cons.prems obtain p ois' where
    p: "find (\<lambda>p. product_id p = ci_productId item) ps = Some p"
    and rest: "orderItemsLoop ps (js_add acc (js_mul (product_price p) (ci_quantity item))) rest
                 = Some (ois', tot)"
    and ois: "ois = \<lparr> item_productId = ci_productId item, item_productName = product_name p,
               item_quantity = ci_quantity item, item_price = product_price p,
               item_total = js_mul (product_price p) (ci_quantity item) \<rparr> # ois'"
    by (auto simp: Let_def split: option.splits prod.splits)
  from Cons.IH [OF rest] p ois show ?case by simp
qed

lemma createOrder_Reply:
  assumes "createOrder e storeId body db = (Reply status ord, db')"
  obtains items orderItems calculatedTotal where
    "ob_items body = Some items" and "items \<noteq> []" and "validateStoreAccess storeId db"
    and "length (findProducts (map ci_productId items) storeId db) = length items"
    and "orderItemsLoop (findProducts (map ci_productId items) storeId db) 0 items
           = Some (orderItems, calculatedTotal)"
    and "order_items ord = orderItems"
    and "order_total ord = js_or (ob_total body) (JNum calculatedTotal)"
    and "order_customerInfo ord = js_or (ob_customerInfo body) (JObj [])"
    and "order_status ord = ''pending''"
    and "order_storeId ord = storeId"
    and "db' = db\<lparr>orders := orders db @ [ord]\<rparr>"
    and "status = 201"
  using assms unfolding createOrder_def
  by (auto simp: Let_def split: option.splits if_splits prod.splits)

text \<open>
  What the product guard of the code decides: for an active store and a non-empty cart,
  the request is turned away with "One or more products not found" exactly when the
  number of resolved products differs from the number of cart items, repetitions counted.
\<close>

lemma createOrder_rejects_on_count_mismatch:
  assumes "ob_items body = Some items" and "items \<noteq> []" and "validateStoreAccess storeId db"
  shows "(createOrder e storeId body db = (Failure 400 ''One or more products not found'', db))
     = (length (findProducts (map ci_productId items) storeId db) \<noteq> length items)"
  using assms unfolding createOrder_def
  by (auto simp: Let_def split: option.splits prod.splits)

text \<open>A request that is turned away persists nothing.\<close>

lemma createOrder_Failure:
  "createOrder e storeId body db = (Failure status message, db') \<Longrightarrow> db' = db"
  unfolding createOrder_def
  by (auto simp: Let_def split: option.splits if_splits prod.splits)

lemmas order_eval = createOrder_def validateStoreAccess_def findProducts_def js_or_def
  slice_last8_def show_nat.simps Let_def

text \<open>
  Double arithmetic at the numbers of the example below: 0.1 times 3 is
  0.30000000000000004, 0.2 times 2 is 0.4, and their sum is 0.7000000000000001.
\<close>

lemma js_mul_tenth_by_three:
  "js_mul (3602879701896397 / 36028797018963968) 3 = 1351079888211149 / 4503599627370496"
  by code_simp

lemma js_mul_fifth_by_two:
  "js_mul (3602879701896397 / 18014398509481984) 2 = 3602879701896397 / 9007199254740992"
  by code_simp

lemma js_add_zero_first:
  "js_add 0 (1351079888211149 / 4503599627370496) = 1351079888211149 / 4503599627370496"
  by code_simp

lemma js_add_first_second:
  "js_add (1351079888211149 / 4503599627370496) (3602879701896397 / 9007199254740992)
     = 6305039478318695 / 9007199254740992"
  by code_simp

lemmas double_eval = js_mul_tenth_by_three js_mul_fifth_by_two js_add_zero_first
  js_add_first_second

text \<open>
  The running example: store "s1" with the products "Widget" at 0.1 and "Gadget" at 0.2
  (the doubles nearest to those decimals), a cart of three widgets and two gadgets, any
  \<^verbatim>\<open>customerInfo\<close> and \<^verbatim>\<open>total\<close>.
\<close>

lemma createOrder_example:
  "createOrder \<lparr>uuid = ''o1'', now = 1762128000123\<rparr> ''s1''
     \<lparr>ob_items = Some [\<lparr>ci_productId = ''p1'', ci_quantity = 3\<rparr>,
                        \<lparr>ci_productId = ''p2'', ci_quantity = 2\<rparr>],
      ob_customerInfo = info, ob_total = tot\<rparr>
     \<lparr>stores = [\<lparr>store_id = ''s1'', store_name = ''Acme'', store_slug = ''acme'',
          store_description = [], store_domain = None, store_isActive = True,
          store_createdAt = 1000, store_updatedAt = 1000\<rparr>],
      products = [\<lparr>product_id = ''p1'', product_name = ''Widget'', product_slug = ''widget'',
          product_description = [], product_price = 3602879701896397 / 36028797018963968,
          product_inventory = 3, product_images = [], product_isActive = True,
          product_storeId = ''s1'', product_createdAt = 2000, product_updatedAt = 2000\<rparr>,
        \<lparr>product_id = ''p2'', product_name = ''Gadget'', product_slug = ''gadget'',
          product_description = [], product_price = 3602879701896397 / 18014398509481984,
          product_inventory = 5, product_images = [], product_isActive = True,
          product_storeId = ''s1'', product_createdAt = 2500, product_updatedAt = 2500\<rparr>],
      orders = []\<rparr>
   = (Reply 201
       \<lparr>order_id = ''o1'', order_orderNumber = ''ORD-28000123'', order_storeId = ''s1'',
        order_items = [\<lparr>item_productId = ''p1'', item_productName = ''Widget'', item_quantity = 3,
           item_price = 3602879701896397 / 36028797018963968,
           item_total = 1351079888211149 / 4503599627370496\<rparr>,
         \<lparr>item_productId = ''p2'', item_productName = ''Gadget'', item_quantity = 2,
           item_price = 3602879701896397 / 18014398509481984,
           item_total = 3602879701896397 / 9007199254740992\<rparr>],
        order_total = (if truthy tot then tot else JNum (6305039478318695 / 9007199254740992)), order_status = ''pending'',
        order_customerInfo = (if truthy info then info else JObj []),
        order_createdAt = 1762128000123, order_updatedAt = 1762128000123,
        order_paymentStatus = None, order_razorpayOrderId = None,
        order_razorpayPaymentId = None, order_paymentCompletedAt = None\<rparr>,
      \<lparr>stores = [\<lparr>store_id = ''s1'', store_name = ''Acme'', store_slug = ''acme'',
          store_description = [], store_domain = None, store_isActive = True,
          store_createdAt = 1000, store_updatedAt = 1000\<rparr>],
      products = [\<lparr>product_id = ''p1'', product_name = ''Widget'', product_slug = ''widget'',
          product_description = [], product_price = 3602879701896397 / 36028797018963968,
          product_inventory = 3, product_images = [], product_isActive = True,
          product_storeId = ''s1'', product_createdAt = 2000, product_updatedAt = 2000\<rparr>,
        \<lparr>product_id = ''p2'', product_name = ''Gadget'', product_slug = ''gadget'',
          product_description = [], product_price = 3602879701896397 / 18014398509481984,
          product_inventory = 5, product_images = [], product_isActive = True,
          product_storeId = ''s1'', product_createdAt = 2500, product_updatedAt = 2500\<rparr>],
      orders = [\<lparr>order_id = ''o1'', order_orderNumber = ''ORD-28000123'', order_storeId = ''s1'',
        order_items = [\<lparr>item_productId = ''p1'', item_productName = ''Widget'', item_quantity = 3,
           item_price = 3602879701896397 / 36028797018963968,
           item_total = 1351079888211149 / 4503599627370496\<rparr>,
         \<lparr>item_productId = ''p2'', item_productName = ''Gadget'', item_quantity = 2,
           item_price = 3602879701896397 / 18014398509481984,
           item_total = 3602879701896397 / 9007199254740992\<rparr>],
        order_total = (if truthy tot then tot else JNum (6305039478318695 / 9007199254740992)), order_status = ''pending'',
        order_customerInfo = (if truthy info then info else JObj []),
        order_createdAt = 1762128000123, order_updatedAt = 1762128000123,
        order_paymentStatus = None, order_razorpayOrderId = None,
        order_razorpayPaymentId = None, order_paymentCompletedAt = None\<rparr>]\<rparr>)"
  by (simp add: order_eval double_eval)

text \<open>
  C1. The claim: the order is rejected with "One or more products not found" exactly
  when the number of products that the batch lookup resolves differs from the number of
  distinct product ids of the request, so that a cart repeating the id of an active
  product passes. The code compares \<^verbatim>\<open>products.length\<close> with \<^verbatim>\<open>productIds.length\<close>,
  which counts repetitions. At a cart that names the active product "p1" of the store
  twice, the lookup resolves one product, as many as there are distinct ids, and yet the
  code answers 400 "One or more products not found", persisting nothing.
\<close>

theorem createOrder_repeated_product_rejected:
  "length (findProducts [''p1'', ''p1''] ''s1''
      \<lparr>stores = [\<lparr>store_id = ''s1'', store_name = ''Acme'', store_slug = ''acme'',
          store_description = [], store_domain = None, store_isActive = True,
          store_createdAt = 1000, store_updatedAt = 1000\<rparr>],
       products = [\<lparr>product_id = ''p1'', product_name = ''Widget'', product_slug = ''widget'',
          product_description = [], product_price = 999 / 100, product_inventory = 3,
          product_images = [], product_isActive = True, product_storeId = ''s1'',
          product_createdAt = 2000, product_updatedAt = 2000\<rparr>],
       orders = []\<rparr>) = length (remdups [''p1'', ''p1'']) \<and>
   createOrder \<lparr>uuid = ''o1'', now = 1762128000123\<rparr> ''s1''
     \<lparr>ob_items = Some [\<lparr>ci_productId = ''p1'', ci_quantity = 1\<rparr>,
                        \<lparr>ci_productId = ''p1'', ci_quantity = 1\<rparr>],
      ob_customerInfo = JUndefined, ob_total = JUndefined\<rparr>
     \<lparr>stores = [\<lparr>store_id = ''s1'', store_name = ''Acme'', store_slug = ''acme'',
          store_description = [], store_domain = None, store_isActive = True,
          store_createdAt = 1000, store_updatedAt = 1000\<rparr>],
      products = [\<lparr>product_id = ''p1'', product_name = ''Widget'', product_slug = ''widget'',
          product_description = [], product_price = 999 / 100, product_inventory = 3,
          product_images = [], product_isActive = True, product_storeId = ''s1'',
          product_createdAt = 2000, product_updatedAt = 2000\<rparr>],
      orders = []\<rparr>
   = (Failure 400 ''One or more products not found'',
      \<lparr>stores = [\<lparr>store_id = ''s1'', store_name = ''Acme'', store_slug = ''acme'',
          store_description = [], store_domain = None, store_isActive = True,
          store_createdAt = 1000, store_updatedAt = 1000\<rparr>],
       products = [\<lparr>product_id = ''p1'', product_name = ''Widget'', product_slug = ''widget'',
          product_description = [], product_price = 999 / 100, product_inventory = 3,
          product_images = [], product_isActive = True, product_storeId = ''s1'',
          product_createdAt = 2000, product_updatedAt = 2000\<rparr>],
       orders = []\<rparr>)"
  by (simp add: order_eval)

text \<open>
  C2, as the code has it. A successful createOrder whose body has no \<^verbatim>\<open>total\<close>: item by
  item, in the order of the cart, the embedded item carries the cart item's product id
  and quantity, the price of the store's active product with that id as the database
  holds it, and as its total the double product of that price and the quantity; the
  order's total is the item totals added from 0 in cart order, each sum a double sum;
  and the order is the document appended to the collection. The products and sums are
  those of IEEE-754 doubles, not the exact ones.
\<close>

theorem createOrder_total_is_sum:
  assumes "createOrder e storeId body db = (Reply status ord, db')"
    and "ob_total body = JUndefined"
    and "ob_items body = Some items"
  shows "order_total ord = JNum (foldl js_add 0
        (map (\<lambda>oi. js_mul (item_price oi) (item_quantity oi)) (order_items ord))) \<and>
     list_all2 (\<lambda>item oi. \<exists>p.
        find (\<lambda>p. product_id p = ci_productId item \<and> product_storeId p = storeId \<and> product_isActive p)
          (products db) = Some p \<and>
        item_productId oi = ci_productId item \<and> item_quantity oi = ci_quantity item \<and>
        item_price oi = product_price p \<and>
        item_total oi = js_mul (product_price p) (ci_quantity item))
       items (order_items ord) \<and>
     orders db' = orders db @ [ord]"
proof -
  from assms(1) obtain items' orderItems calculatedTotal where
    i: "ob_items body = Some items'"
    and loop: "orderItemsLoop (findProducts (map ci_productId items') storeId db) 0 items'
           = Some (orderItems, calculatedTotal)"
    and oi: "order_items ord = orderItems"
    and tot: "order_total ord = js_or (ob_total body) (JNum calculatedTotal)"
    and db': "db' = db\<lparr>orders := orders db @ [ord]\<rparr>"
    by (rule createOrder_Reply)
  from i assms(3) have eq: "items' = items" by simp
  note res = orderItemsLoop_result [OF loop [unfolded eq]]
  have all: "list_all2 (\<lambda>item oi. \<exists>p.
        find (\<lambda>p. product_id p = ci_productId item \<and> product_storeId p = storeId \<and> product_isActive p)
          (products db) = Some p \<and>
        item_productId oi = ci_productId item \<and> item_quantity oi = ci_quantity item \<and>
        item_price oi = product_price p \<and>
        item_total oi = js_mul (product_price p) (ci_quantity item))
       items orderItems"
    using res [THEN conjunct2]
    by (rule list_all2_mono) (auto dest: find_in_findProducts)
  have "map item_total orderItems
      = map (\<lambda>oi. js_mul (item_price oi) (item_quantity oi)) orderItems"
    using all by (induction rule: list_all2_induct) auto
  with res [THEN conjunct1] tot assms(2) oi all db' show ?thesis
    by (simp add: js_or_def)
qed

text \<open>
  The theorem at the running example: the item totals are 0.30000000000000004 and 0.4,
  the order total is 0.7000000000000001.
\<close>

theorem createOrder_total_is_sum_witness:
  "createOrder \<lparr>uuid = ''o1'', now = 1762128000123\<rparr> ''s1''
     \<lparr>ob_items = Some [\<lparr>ci_productId = ''p1'', ci_quantity = 3\<rparr>,
                        \<lparr>ci_productId = ''p2'', ci_quantity = 2\<rparr>],
      ob_customerInfo = JUndefined, ob_total = JUndefined\<rparr>
     \<lparr>stores = [\<lparr>store_id = ''s1'', store_name = ''Acme'', store_slug = ''acme'',
          store_description = [], store_domain = None, store_isActive = True,
          store_createdAt = 1000, store_updatedAt = 1000\<rparr>],
      products = [\<lparr>product_id = ''p1'', product_name = ''Widget'', product_slug = ''widget'',
          product_description = [], product_price = 3602879701896397 / 36028797018963968,
          product_inventory = 3, product_images = [], product_isActive = True,
          product_storeId = ''s1'', product_createdAt = 2000, product_updatedAt = 2000\<rparr>,
        \<lparr>product_id = ''p2'', product_name = ''Gadget'', product_slug = ''gadget'',
          product_description = [], product_price = 3602879701896397 / 18014398509481984,
          product_inventory = 5, product_images = [], product_isActive = True,
          product_storeId = ''s1'', product_createdAt = 2500, product_updatedAt = 2500\<rparr>],
      orders = []\<rparr>
   = (Reply 201
       \<lparr>order_id = ''o1'', order_orderNumber = ''ORD-28000123'', order_storeId = ''s1'',
        order_items = [\<lparr>item_productId = ''p1'', item_productName = ''Widget'', item_quantity = 3,
           item_price = 3602879701896397 / 36028797018963968,
           item_total = 1351079888211149 / 4503599627370496\<rparr>,
         \<lparr>item_productId = ''p2'', item_productName = ''Gadget'', item_quantity = 2,
           item_price = 3602879701896397 / 18014398509481984,
           item_total = 3602879701896397 / 9007199254740992\<rparr>],
        order_total = JNum (6305039478318695 / 9007199254740992), order_status = ''pending'',
        order_customerInfo = JObj [],
        order_createdAt = 1762128000123, order_updatedAt = 1762128000123,
        order_paymentStatus = None, order_razorpayOrderId = None,
        order_razorpayPaymentId = None, order_paymentCompletedAt = None\<rparr>,
      \<lparr>stores = [\<lparr>store_id = ''s1'', store_name = ''Acme'', store_slug = ''acme'',
          store_description = [], store_domain = None, store_isActive = True,
          store_createdAt = 1000, store_updatedAt = 1000\<rparr>],
      products = [\<lparr>product_id = ''p1'', product_name = ''Widget'', product_slug = ''widget'',
          product_description = [], product_price = 3602879701896397 / 36028797018963968,
          product_inventory = 3, product_images = [], product_isActive = True,
          product_storeId = ''s1'', product_createdAt = 2000, product_updatedAt = 2000\<rparr>,
        \<lparr>product_id = ''p2'', product_name = ''Gadget'', product_slug = ''gadget'',
          product_description = [], product_price = 3602879701896397 / 18014398509481984,
          product_inventory = 5, product_images = [], product_isActive = True,
          product_storeId = ''s1'', product_createdAt = 2500, product_updatedAt = 2500\<rparr>],
      orders = [\<lparr>order_id = ''o1'', order_orderNumber = ''ORD-28000123'', order_storeId = ''s1'',
        order_items = [\<lparr>item_productId = ''p1'', item_productName = ''Widget'', item_quantity = 3,
           item_price = 3602879701896397 / 36028797018963968,
           item_total = 1351079888211149 / 4503599627370496\<rparr>,
         \<lparr>item_productId = ''p2'', item_productName = ''Gadget'', item_quantity = 2,
           item_price = 3602879701896397 / 18014398509481984,
           item_total = 3602879701896397 / 9007199254740992\<rparr>],
        order_total = JNum (6305039478318695 / 9007199254740992), order_status = ''pending'',
        order_customerInfo = JObj [],
        order_createdAt = 1762128000123, order_updatedAt = 1762128000123,
        order_paymentStatus = None, order_razorpayOrderId = None,
        order_razorpayPaymentId = None, order_paymentCompletedAt = None\<rparr>]\<rparr>) \<and>
   JNum (6305039478318695 / 9007199254740992) = JNum (foldl js_add 0
     [js_mul (3602879701896397 / 36028797018963968) 3,
      js_mul (3602879701896397 / 18014398509481984) 2])"
  using createOrder_total_is_sum [OF createOrder_example [where tot = JUndefined and info = JUndefined, simplified]]
    createOrder_example [where tot = JUndefined and info = JUndefined, simplified]
  by (simp add: double_eval)

text \<open>
  As stated, with the exact product and the exact sum, the claim fails at the running
  example. The total of the first item, 0.30000000000000004, is not three times its
  price, neither the double that the database holds for 0.1 nor the decimal 0.1; and
  the order total 0.7000000000000001 is not the exact sum of quantity times price over
  the cart, neither for the stored doubles nor for the decimals 0.1 and 0.2.
\<close>

theorem createOrder_exact_sum_counterexample:
  "fst (createOrder \<lparr>uuid = ''o1'', now = 1762128000123\<rparr> ''s1''
     \<lparr>ob_items = Some [\<lparr>ci_productId = ''p1'', ci_quantity = 3\<rparr>,
                        \<lparr>ci_productId = ''p2'', ci_quantity = 2\<rparr>],
      ob_customerInfo = JUndefined, ob_total = JUndefined\<rparr>
     \<lparr>stores = [\<lparr>store_id = ''s1'', store_name = ''Acme'', store_slug = ''acme'',
          store_description = [], store_domain = None, store_isActive = True,
          store_createdAt = 1000, store_updatedAt = 1000\<rparr>],
      products = [\<lparr>product_id = ''p1'', product_name = ''Widget'', product_slug = ''widget'',
          product_description = [], product_price = 3602879701896397 / 36028797018963968,
          product_inventory = 3, product_images = [], product_isActive = True,
          product_storeId = ''s1'', product_createdAt = 2000, product_updatedAt = 2000\<rparr>,
        \<lparr>product_id = ''p2'', product_name = ''Gadget'', product_slug = ''gadget'',
          product_description = [], product_price = 3602879701896397 / 18014398509481984,
          product_inventory = 5, product_images = [], product_isActive = True,
          product_storeId = ''s1'', product_createdAt = 2500, product_updatedAt = 2500\<rparr>],
      orders = []\<rparr>)
   = Reply 201
       \<lparr>order_id = ''o1'', order_orderNumber = ''ORD-28000123'', order_storeId = ''s1'',
        order_items = [\<lparr>item_productId = ''p1'', item_productName = ''Widget'', item_quantity = 3,
           item_price = 3602879701896397 / 36028797018963968,
           item_total = 1351079888211149 / 4503599627370496\<rparr>,
         \<lparr>item_productId = ''p2'', item_productName = ''Gadget'', item_quantity = 2,
           item_price = 3602879701896397 / 18014398509481984,
           item_total = 3602879701896397 / 9007199254740992\<rparr>],
        order_total = JNum (6305039478318695 / 9007199254740992), order_status = ''pending'',
        order_customerInfo = JObj [],
        order_createdAt = 1762128000123, order_updatedAt = 1762128000123,
        order_paymentStatus = None, order_razorpayOrderId = None,
        order_razorpayPaymentId = None, order_paymentCompletedAt = None\<rparr> \<and>
   (1351079888211149 / 4503599627370496 :: rat)
     \<noteq> 3 * (3602879701896397 / 36028797018963968) \<and>
   (1351079888211149 / 4503599627370496 :: rat) \<noteq> 3 * (1 / 10) \<and>
   (6305039478318695 / 9007199254740992 :: rat)
     \<noteq> 3 * (3602879701896397 / 36028797018963968)
       + 2 * (3602879701896397 / 18014398509481984) \<and>
   (6305039478318695 / 9007199254740992 :: rat) \<noteq> 3 * (1 / 10) + 2 * (2 / 10)"
  using createOrder_example [where tot = JUndefined and info = JUndefined, simplified]
  by simp

text \<open>
  C3, as the code has it. The total is \<^verbatim>\<open>total || calculatedTotal\<close>: a successful
  createOrder persists, as the one document appended to the collection, the order it
  returns, whose total is the caller's \<^verbatim>\<open>total\<close> when that value is truthy, and the
  calculated total (the item totals added from 0 in cart order, in double arithmetic)
  when \<^verbatim>\<open>total\<close> is absent or falsy (0, null, false, the empty string).
\<close>

theorem createOrder_total_override:
  assumes "createOrder e storeId body db = (Reply status ord, db')"
  shows "order_total ord =
     (if truthy (ob_total body) then ob_total body
      else JNum (foldl js_add 0 (map item_total (order_items ord)))) \<and>
     db' = db\<lparr>orders := orders db @ [ord]\<rparr>"
proof -
  from assms obtain items orderItems calculatedTotal where
    loop: "orderItemsLoop (findProducts (map ci_productId items) storeId db) 0 items
           = Some (orderItems, calculatedTotal)"
    and oi: "order_items ord = orderItems"
    and tot: "order_total ord = js_or (ob_total body) (JNum calculatedTotal)"
    and db': "db' = db\<lparr>orders := orders db @ [ord]\<rparr>"
    by (rule createOrder_Reply)
  from orderItemsLoop_result [OF loop] tot oi db' show ?thesis
    by (simp add: js_or_def)
qed

text \<open>
  The theorem at the running example with the caller's total 20: the reply and the
  database left behind.
\<close>

theorem createOrder_total_override_witness:
  "createOrder \<lparr>uuid = ''o1'', now = 1762128000123\<rparr> ''s1''
     \<lparr>ob_items = Some [\<lparr>ci_productId = ''p1'', ci_quantity = 3\<rparr>,
                        \<lparr>ci_productId = ''p2'', ci_quantity = 2\<rparr>],
      ob_customerInfo = JUndefined, ob_total = JNum 20\<rparr>
     \<lparr>stores = [\<lparr>store_id = ''s1'', store_name = ''Acme'', store_slug = ''acme'',
          store_description = [], store_domain = None, store_isActive = True,
          store_createdAt = 1000, store_updatedAt = 1000\<rparr>],
      products = [\<lparr>product_id = ''p1'', product_name = ''Widget'', product_slug = ''widget'',
          product_description = [], product_price = 3602879701896397 / 36028797018963968,
          product_inventory = 3, product_images = [], product_isActive = True,
          product_storeId = ''s1'', product_createdAt = 2000, product_updatedAt = 2000\<rparr>,
        \<lparr>product_id = ''p2'', product_name = ''Gadget'', product_slug = ''gadget'',
          product_description = [], product_price = 3602879701896397 / 18014398509481984,
          product_inventory = 5, product_images = [], product_isActive = True,
          product_storeId = ''s1'', product_createdAt = 2500, product_updatedAt = 2500\<rparr>],
      orders = []\<rparr>
   = (Reply 201
       \<lparr>order_id = ''o1'', order_orderNumber = ''ORD-28000123'', order_storeId = ''s1'',
        order_items = [\<lparr>item_productId = ''p1'', item_productName = ''Widget'', item_quantity = 3,
           item_price = 3602879701896397 / 36028797018963968,
           item_total = 1351079888211149 / 4503599627370496\<rparr>,
         \<lparr>item_productId = ''p2'', item_productName = ''Gadget'', item_quantity = 2,
           item_price = 3602879701896397 / 18014398509481984,
           item_total = 3602879701896397 / 9007199254740992\<rparr>],
        order_total = JNum 20, order_status = ''pending'',
        order_customerInfo = JObj [],
        order_createdAt = 1762128000123, order_updatedAt = 1762128000123,
        order_paymentStatus = None, order_razorpayOrderId = None,
        order_razorpayPaymentId = None, order_paymentCompletedAt = None\<rparr>,
      \<lparr>stores = [\<lparr>store_id = ''s1'', store_name = ''Acme'', store_slug = ''acme'',
          store_description = [], store_domain = None, store_isActive = True,
          store_createdAt = 1000, store_updatedAt = 1000\<rparr>],
      products = [\<lparr>product_id = ''p1'', product_name = ''Widget'', product_slug = ''widget'',
          product_description = [], product_price = 3602879701896397 / 36028797018963968,
          product_inventory = 3, product_images = [], product_isActive = True,
          product_storeId = ''s1'', product_createdAt = 2000, product_updatedAt = 2000\<rparr>,
        \<lparr>product_id = ''p2'', product_name = ''Gadget'', product_slug = ''gadget'',
          product_description = [], product_price = 3602879701896397 / 18014398509481984,
          product_inventory = 5, product_images = [], product_isActive = True,
          product_storeId = ''s1'', product_createdAt = 2500, product_updatedAt = 2500\<rparr>],
      orders = [\<lparr>order_id = ''o1'', order_orderNumber = ''ORD-28000123'', order_storeId = ''s1'',
        order_items = [\<lparr>item_productId = ''p1'', item_productName = ''Widget'', item_quantity = 3,
           item_price = 3602879701896397 / 36028797018963968,
           item_total = 1351079888211149 / 4503599627370496\<rparr>,
         \<lparr>item_productId = ''p2'', item_productName = ''Gadget'', item_quantity = 2,
           item_price = 3602879701896397 / 18014398509481984,
           item_total = 3602879701896397 / 9007199254740992\<rparr>],
        order_total = JNum 20, order_status = ''pending'',
        order_customerInfo = JObj [],
        order_createdAt = 1762128000123, order_updatedAt = 1762128000123,
        order_paymentStatus = None, order_razorpayOrderId = None,
        order_razorpayPaymentId = None, order_paymentCompletedAt = None\<rparr>]\<rparr>)"
  using createOrder_total_override [OF createOrder_example [where tot = "JNum 20" and info = JUndefined, simplified]]
    createOrder_example [where tot = "JNum 20" and info = JUndefined, simplified]
  by simp

text \<open>
  As stated, with "any value present in the request body, including 0", the claim fails:
  with \<^verbatim>\<open>total: 0\<close> in the body the persisted total is the calculated
  0.7000000000000001.
\<close>

theorem createOrder_zero_total_counterexample:
  "createOrder \<lparr>uuid = ''o1'', now = 1762128000123\<rparr> ''s1''
     \<lparr>ob_items = Some [\<lparr>ci_productId = ''p1'', ci_quantity = 3\<rparr>,
                        \<lparr>ci_productId = ''p2'', ci_quantity = 2\<rparr>],
      ob_customerInfo = JUndefined, ob_total = JNum 0\<rparr>
     \<lparr>stores = [\<lparr>store_id = ''s1'', store_name = ''Acme'', store_slug = ''acme'',
          store_description = [], store_domain = None, store_isActive = True,
          store_createdAt = 1000, store_updatedAt = 1000\<rparr>],
      products = [\<lparr>product_id = ''p1'', product_name = ''Widget'', product_slug = ''widget'',
          product_description = [], product_price = 3602879701896397 / 36028797018963968,
          product_inventory = 3, product_images = [], product_isActive = True,
          product_storeId = ''s1'', product_createdAt = 2000, product_updatedAt = 2000\<rparr>,
        \<lparr>product_id = ''p2'', product_name = ''Gadget'', product_slug = ''gadget'',
          product_description = [], product_price = 3602879701896397 / 18014398509481984,
          product_inventory = 5, product_images = [], product_isActive = True,
          product_storeId = ''s1'', product_createdAt = 2500, product_updatedAt = 2500\<rparr>],
      orders = []\<rparr>
   = (Reply 201
       \<lparr>order_id = ''o1'', order_orderNumber = ''ORD-28000123'', order_storeId = ''s1'',
        order_items = [\<lparr>item_productId = ''p1'', item_productName = ''Widget'', item_quantity = 3,
           item_price = 3602879701896397 / 36028797018963968,
           item_total = 1351079888211149 / 4503599627370496\<rparr>,
         \<lparr>item_productId = ''p2'', item_productName = ''Gadget'', item_quantity = 2,
           item_price = 3602879701896397 / 18014398509481984,
           item_total = 3602879701896397 / 9007199254740992\<rparr>],
        order_total = JNum (6305039478318695 / 9007199254740992), order_status = ''pending'',
        order_customerInfo = JObj [],
        order_createdAt = 1762128000123, order_updatedAt = 1762128000123,
        order_paymentStatus = None, order_razorpayOrderId = None,
        order_razorpayPaymentId = None, order_paymentCompletedAt = None\<rparr>,
      \<lparr>stores = [\<lparr>store_id = ''s1'', store_name = ''Acme'', store_slug = ''acme'',
          store_description = [], store_domain = None, store_isActive = True,
          store_createdAt = 1000, store_updatedAt = 1000\<rparr>],
      products = [\<lparr>product_id = ''p1'', product_name = ''Widget'', product_slug = ''widget'',
          product_description = [], product_price = 3602879701896397 / 36028797018963968,
          product_inventory = 3, product_images = [], product_isActive = True,
          product_storeId = ''s1'', product_createdAt = 2000, product_updatedAt = 2000\<rparr>,
        \<lparr>product_id = ''p2'', product_name = ''Gadget'', product_slug = ''gadget'',
          product_description = [], product_price = 3602879701896397 / 18014398509481984,
          product_inventory = 5, product_images = [], product_isActive = True,
          product_storeId = ''s1'', product_createdAt = 2500, product_updatedAt = 2500\<rparr>],
      orders = [\<lparr>order_id = ''o1'', order_orderNumber = ''ORD-28000123'', order_storeId = ''s1'',
        order_items = [\<lparr>item_productId = ''p1'', item_productName = ''Widget'', item_quantity = 3,
           item_price = 3602879701896397 / 36028797018963968,
           item_total = 1351079888211149 / 4503599627370496\<rparr>,
         \<lparr>item_productId = ''p2'', item_productName = ''Gadget'', item_quantity = 2,
           item_price = 3602879701896397 / 18014398509481984,
           item_total = 3602879701896397 / 9007199254740992\<rparr>],
        order_total = JNum (6305039478318695 / 9007199254740992), order_status = ''pending'',
        order_customerInfo = JObj [],
        order_createdAt = 1762128000123, order_updatedAt = 1762128000123,
        order_paymentStatus = None, order_razorpayOrderId = None,
        order_razorpayPaymentId = None, order_paymentCompletedAt = None\<rparr>]\<rparr>) \<and>
   JNum (6305039478318695 / 9007199254740992) \<noteq> JNum 0"
  using createOrder_example [where tot = "JNum 0" and info = JUndefined, simplified]
  by simp

text \<open>
  C9. A successful createOrder persists, as the one document appended to the collection,
  the order it returns, with \<^verbatim>\<open>customerInfo || {}\<close>: the caller's value when it is truthy,
  the empty object when it is absent or falsy. The contents are never inspected: with
  any other \<^verbatim>\<open>customerInfo\<close> in its place the same request succeeds as well and persists
  the same order but for that field; and whether and how a request fails does not
  depend on its \<^verbatim>\<open>customerInfo\<close>.
\<close>

theorem createOrder_customerInfo:
  "(createOrder e storeId body db = (Reply status ord, db')
      \<longrightarrow> order_customerInfo ord =
            (if truthy (ob_customerInfo body) then ob_customerInfo body else JObj []) \<and>
          db' = db\<lparr>orders := orders db @ [ord]\<rparr> \<and>
          createOrder e storeId (body\<lparr>ob_customerInfo := info\<rparr>) db =
            (Reply status (ord\<lparr>order_customerInfo := (if truthy info then info else JObj [])\<rparr>),
             db\<lparr>orders := orders db @
               [ord\<lparr>order_customerInfo := (if truthy info then info else JObj [])\<rparr>]\<rparr>)) \<and>
   ((createOrder e storeId (body\<lparr>ob_customerInfo := info\<rparr>) db = (Failure code message, db''))
      = (createOrder e storeId body db = (Failure code message, db'')))"
proof (intro conjI impI)
  assume a: "createOrder e storeId body db = (Reply status ord, db')"
  then show "order_customerInfo ord =
            (if truthy (ob_customerInfo body) then ob_customerInfo body else JObj [])"
    by (rule createOrder_Reply) (simp add: js_or_def)
  from a show "db' = db\<lparr>orders := orders db @ [ord]\<rparr>"
    by (rule createOrder_Reply)
  from a show "createOrder e storeId (body\<lparr>ob_customerInfo := info\<rparr>) db =
            (Reply status (ord\<lparr>order_customerInfo := (if truthy info then info else JObj [])\<rparr>),
             db\<lparr>orders := orders db @
               [ord\<lparr>order_customerInfo := (if truthy info then info else JObj [])\<rparr>]\<rparr>)"
    unfolding createOrder_def
    by (auto simp: Let_def js_or_def split: option.splits if_splits prod.splits)
next
  show "(createOrder e storeId (body\<lparr>ob_customerInfo := info\<rparr>) db = (Failure code message, db''))
      = (createOrder e storeId body db = (Failure code message, db''))"
    unfolding createOrder_def
    by (auto simp: Let_def split: option.splits if_splits prod.splits)
qed

text \<open>
  The theorem at the running example with \<^verbatim>\<open>customerInfo: null\<close>, stored as the empty
  object, and with a string in its place, stored as it is.
\<close>

theorem createOrder_customerInfo_witness:
  "createOrder \<lparr>uuid = ''o1'', now = 1762128000123\<rparr> ''s1''
     \<lparr>ob_items = Some [\<lparr>ci_productId = ''p1'', ci_quantity = 3\<rparr>,
                        \<lparr>ci_productId = ''p2'', ci_quantity = 2\<rparr>],
      ob_customerInfo = JNull, ob_total = JUndefined\<rparr>
     \<lparr>stores = [\<lparr>store_id = ''s1'', store_name = ''Acme'', store_slug = ''acme'',
          store_description = [], store_domain = None, store_isActive = True,
          store_createdAt = 1000, store_updatedAt = 1000\<rparr>],
      products = [\<lparr>product_id = ''p1'', product_name = ''Widget'', product_slug = ''widget'',
          product_description = [], product_price = 3602879701896397 / 36028797018963968,
          product_inventory = 3, product_images = [], product_isActive = True,
          product_storeId = ''s1'', product_createdAt = 2000, product_updatedAt = 2000\<rparr>,
        \<lparr>product_id = ''p2'', product_name = ''Gadget'', product_slug = ''gadget'',
          product_description = [], product_price = 3602879701896397 / 18014398509481984,
          product_inventory = 5, product_images = [], product_isActive = True,
          product_storeId = ''s1'', product_createdAt = 2500, product_updatedAt = 2500\<rparr>],
      orders = []\<rparr>
   = (Reply 201
       \<lparr>order_id = ''o1'', order_orderNumber = ''ORD-28000123'', order_storeId = ''s1'',
        order_items = [\<lparr>item_productId = ''p1'', item_productName = ''Widget'', item_quantity = 3,
           item_price = 3602879701896397 / 36028797018963968,
           item_total = 1351079888211149 / 4503599627370496\<rparr>,
         \<lparr>item_productId = ''p2'', item_productName = ''Gadget'', item_quantity = 2,
           item_price = 3602879701896397 / 18014398509481984,
           item_total = 3602879701896397 / 9007199254740992\<rparr>],
        order_total = JNum (6305039478318695 / 9007199254740992), order_status = ''pending'',
        order_customerInfo = JObj [],
        order_createdAt = 1762128000123, order_updatedAt = 1762128000123,
        order_paymentStatus = None, order_razorpayOrderId = None,
        order_razorpayPaymentId = None, order_paymentCompletedAt = None\<rparr>,
      \<lparr>stores = [\<lparr>store_id = ''s1'', store_name = ''Acme'', store_slug = ''acme'',
          store_description = [], store_domain = None, store_isActive = True,
          store_createdAt = 1000, store_updatedAt = 1000\<rparr>],
      products = [\<lparr>product_id = ''p1'', product_name = ''Widget'', product_slug = ''widget'',
          product_description = [], product_price = 3602879701896397 / 36028797018963968,
          product_inventory = 3, product_images = [], product_isActive = True,
          product_storeId = ''s1'', product_createdAt = 2000, product_updatedAt = 2000\<rparr>,
        \<lparr>product_id = ''p2'', product_name = ''Gadget'', product_slug = ''gadget'',
          product_description = [], product_price = 3602879701896397 / 18014398509481984,
          product_inventory = 5, product_images = [], product_isActive = True,
          product_storeId = ''s1'', product_createdAt = 2500, product_updatedAt = 2500\<rparr>],
      orders = [\<lparr>order_id = ''o1'', order_orderNumber = ''ORD-28000123'', order_storeId = ''s1'',
        order_items = [\<lparr>item_productId = ''p1'', item_productName = ''Widget'', item_quantity = 3,
           item_price = 3602879701896397 / 36028797018963968,
           item_total = 1351079888211149 / 4503599627370496\<rparr>,
         \<lparr>item_productId = ''p2'', item_productName = ''Gadget'', item_quantity = 2,
           item_price = 3602879701896397 / 18014398509481984,
           item_total = 3602879701896397 / 9007199254740992\<rparr>],
        order_total = JNum (6305039478318695 / 9007199254740992), order_status = ''pending'',
        order_customerInfo = JObj [],
        order_createdAt = 1762128000123, order_updatedAt = 1762128000123,
        order_paymentStatus = None, order_razorpayOrderId = None,
        order_razorpayPaymentId = None, order_paymentCompletedAt = None\<rparr>]\<rparr>) \<and>
   createOrder \<lparr>uuid = ''o1'', now = 1762128000123\<rparr> ''s1''
     \<lparr>ob_items = Some [\<lparr>ci_productId = ''p1'', ci_quantity = 3\<rparr>,
                        \<lparr>ci_productId = ''p2'', ci_quantity = 2\<rparr>],
      ob_customerInfo = JStr ''call me'', ob_total = JUndefined\<rparr>
     \<lparr>stores = [\<lparr>store_id = ''s1'', store_name = ''Acme'', store_slug = ''acme'',
          store_description = [], store_domain = None, store_isActive = True,
          store_createdAt = 1000, store_updatedAt = 1000\<rparr>],
      products = [\<lparr>product_id = ''p1'', product_name = ''Widget'', product_slug = ''widget'',
          product_description = [], product_price = 3602879701896397 / 36028797018963968,
          product_inventory = 3, product_images = [], product_isActive = True,
          product_storeId = ''s1'', product_createdAt = 2000, product_updatedAt = 2000\<rparr>,
        \<lparr>product_id = ''p2'', product_name = ''Gadget'', product_slug = ''gadget'',
          product_description = [], product_price = 3602879701896397 / 18014398509481984,
          product_inventory = 5, product_images = [], product_isActive = True,
          product_storeId = ''s1'', product_createdAt = 2500, product_updatedAt = 2500\<rparr>],
      orders = []\<rparr>
   = (Reply 201
       \<lparr>order_id = ''o1'', order_orderNumber = ''ORD-28000123'', order_storeId = ''s1'',
        order_items = [\<lparr>item_productId = ''p1'', item_productName = ''Widget'', item_quantity = 3,
           item_price = 3602879701896397 / 36028797018963968,
           item_total = 1351079888211149 / 4503599627370496\<rparr>,
         \<lparr>item_productId = ''p2'', item_productName = ''Gadget'', item_quantity = 2,
           item_price = 3602879701896397 / 18014398509481984,
           item_total = 3602879701896397 / 9007199254740992\<rparr>],
        order_total = JNum (6305039478318695 / 9007199254740992), order_status = ''pending'',
        order_customerInfo = JStr ''call me'',
        order_createdAt = 1762128000123, order_updatedAt = 1762128000123,
        order_paymentStatus = None, order_razorpayOrderId = None,
        order_razorpayPaymentId = None, order_paymentCompletedAt = None\<rparr>,
      \<lparr>stores = [\<lparr>store_id = ''s1'', store_name = ''Acme'', store_slug = ''acme'',
          store_description = [], store_domain = None, store_isActive = True,
          store_createdAt = 1000, store_updatedAt = 1000\<rparr>],
      products = [\<lparr>product_id = ''p1'', product_name = ''Widget'', product_slug = ''widget'',
          product_description = [], product_price = 3602879701896397 / 36028797018963968,
          product_inventory = 3, product_images = [], product_isActive = True,
          product_storeId = ''s1'', product_createdAt = 2000, product_updatedAt = 2000\<rparr>,
        \<lparr>product_id = ''p2'', product_name = ''Gadget'', product_slug = ''gadget'',
          product_description = [], product_price = 3602879701896397 / 18014398509481984,
          product_inventory = 5, product_images = [], product_isActive = True,
          product_storeId = ''s1'', product_createdAt = 2500, product_updatedAt = 2500\<rparr>],
      orders = [\<lparr>order_id = ''o1'', order_orderNumber = ''ORD-28000123'', order_storeId = ''s1'',
        order_items = [\<lparr>item_productId = ''p1'', item_productName = ''Widget'', item_quantity = 3,
           item_price = 3602879701896397 / 36028797018963968,
           item_total = 1351079888211149 / 4503599627370496\<rparr>,
         \<lparr>item_productId = ''p2'', item_productName = ''Gadget'', item_quantity = 2,
           item_price = 3602879701896397 / 18014398509481984,
           item_total = 3602879701896397 / 9007199254740992\<rparr>],
        order_total = JNum (6305039478318695 / 9007199254740992), order_status = ''pending'',
        order_customerInfo = JStr ''call me'',
        order_createdAt = 1762128000123, order_updatedAt = 1762128000123,
        order_paymentStatus = None, order_razorpayOrderId = None,
        order_razorpayPaymentId = None, order_paymentCompletedAt = None\<rparr>]\<rparr>)"
  using createOrder_customerInfo [where info = "JStr ''call me''", THEN conjunct1, rule_format,
      OF createOrder_example [where tot = JUndefined and info = JNull, simplified]]
    createOrder_example [where tot = JUndefined and info = JNull, simplified]
  by simp

section \<open>Properties of the payment bridge\<close>

lemma updateOne_no_match:
  "\<forall>x \<in> set xs. \<not> P x \<Longrightarrow> updateOne P f xs = (0, xs)"
  by (induction xs) auto

lemma updateOne_first_match:
  "\<forall>x \<in> set pre. \<not> P x \<Longrightarrow> P x \<Longrightarrow> updateOne P f (pre @ x # post) = (1, pre @ f x # post)"
  by (induction pre) auto

text \<open>
  Double arithmetic at the amounts of the examples below: 1.005 times 100 is
  100.49999999999999, which \<^verbatim>\<open>Math.round\<close> takes to 100.
\<close>

lemma paise_of_1005:
  "math_round (js_mul (1131529406376837 / 1125899906842624) 100) = 100"
  by code_simp

lemma paise_of_minus_5:
  "math_round (js_mul (- 5) 100) = - 500"
  by code_simp

text \<open>
  C4. All three gateway identifiers present (non-empty) and the signature different from
  the keyed hash of \<^verbatim>\<open>razorpay_order_id + '|' + razorpay_payment_id\<close> under the secret:
  the answer is 400 "Invalid payment signature" and the database is unchanged.
\<close>

theorem verifyPayment_bad_signature:
  assumes "vb_razorpay_order_id body = Some razorpay_order_id" and "razorpay_order_id \<noteq> []"
    and "vb_razorpay_payment_id body = Some razorpay_payment_id" and "razorpay_payment_id \<noteq> []"
    and "vb_razorpay_signature body = Some razorpay_signature" and "razorpay_signature \<noteq> []"
    and "razorpay_signature \<noteq> hmac secret (razorpay_order_id @ ''|'' @ razorpay_payment_id)"
  shows "verifyPayment hmac secret e body db = (Failure 400 ''Invalid payment signature'', db)"
  using assms by (auto simp: verifyPayment_def)

text \<open>
  The theorem with key-and-message concatenation standing for the hash, at a signature
  that differs from the expected one in its last character.
\<close>

theorem verifyPayment_bad_signature_witness:
  "''secretorder_9|pay_7'' \<noteq> ''secretorder_9|pay_8'' \<and>
   verifyPayment (@) ''secret'' \<lparr>uuid = ''u'', now = 5000\<rparr>
     \<lparr>vb_razorpay_order_id = Some ''order_9'', vb_razorpay_payment_id = Some ''pay_7'',
      vb_razorpay_signature = Some ''secretorder_9|pay_8'',
      vb_orderId = Some ''o1'', vb_storeId = Some ''s1''\<rparr>
     \<lparr>stores = [], products = [], orders = []\<rparr>
   = (Failure 400 ''Invalid payment signature'', \<lparr>stores = [], products = [], orders = []\<rparr>)"
  using verifyPayment_bad_signature
    [of "\<lparr>vb_razorpay_order_id = Some ''order_9'', vb_razorpay_payment_id = Some ''pay_7'',
      vb_razorpay_signature = Some ''secretorder_9|pay_8'',
      vb_orderId = Some ''o1'', vb_storeId = Some ''s1''\<rparr>" "''order_9''" "''pay_7''"
      "''secretorder_9|pay_8''" "(@)" "''secret''" "\<lparr>uuid = ''u'', now = 5000\<rparr>"
      "\<lparr>stores = [], products = [], orders = []\<rparr>"]
  by simp

text \<open>
  C5. All three gateway identifiers present and the signature equal to the recomputed
  hash. When no stored order has the request's \<^verbatim>\<open>orderId\<close> and \<^verbatim>\<open>storeId\<close>, the answer is
  404 "Order not found" and the database is unchanged. Otherwise the first stored order
  with that id and store is rewritten in one step, status "paid", paymentStatus
  "completed", both gateway identifiers and the completion time stored, every other
  order and every other field as before, and the answer is the success message.
\<close>

theorem verifyPayment_marks_paid:
  assumes "vb_razorpay_order_id body = Some razorpay_order_id" and "razorpay_order_id \<noteq> []"
    and "vb_razorpay_payment_id body = Some razorpay_payment_id" and "razorpay_payment_id \<noteq> []"
    and "vb_razorpay_signature body = Some razorpay_signature" and "razorpay_signature \<noteq> []"
    and "razorpay_signature = hmac secret (razorpay_order_id @ ''|'' @ razorpay_payment_id)"
  shows "((\<forall>ord \<in> set (orders db).
            \<not> (vb_orderId body = Some (order_id ord) \<and> vb_storeId body = Some (order_storeId ord)))
          \<longrightarrow> verifyPayment hmac secret e body db = (Failure 404 ''Order not found'', db)) \<and>
         (orders db = pre @ ord # post \<and>
          (\<forall>ord' \<in> set pre.
            \<not> (vb_orderId body = Some (order_id ord') \<and> vb_storeId body = Some (order_storeId ord'))) \<and>
          vb_orderId body = Some (order_id ord) \<and> vb_storeId body = Some (order_storeId ord)
          \<longrightarrow> verifyPayment hmac secret e body db =
                (Reply 200 ''Payment verified successfully'',
                 db\<lparr>orders := pre @
                   ord\<lparr> order_status := ''paid'',
                        order_paymentStatus := Some ''completed'',
                        order_razorpayOrderId := Some razorpay_order_id,
                        order_razorpayPaymentId := Some razorpay_payment_id,
                        order_paymentCompletedAt := Some (now e),
                        order_updatedAt := now e \<rparr> # post\<rparr>))"
proof (intro conjI impI)
  assume "\<forall>ord \<in> set (orders db).
            \<not> (vb_orderId body = Some (order_id ord) \<and> vb_storeId body = Some (order_storeId ord))"
  then have "\<forall>ord \<in> set (orders db). \<not> orderMatches (vb_orderId body) (vb_storeId body) ord"
    by (simp add: orderMatches_def)
  from updateOne_no_match [OF this] assms
  show "verifyPayment hmac secret e body db = (Failure 404 ''Order not found'', db)"
    by (simp add: verifyPayment_def)
next
  assume a: "orders db = pre @ ord # post \<and>
          (\<forall>ord' \<in> set pre.
            \<not> (vb_orderId body = Some (order_id ord') \<and> vb_storeId body = Some (order_storeId ord'))) \<and>
          vb_orderId body = Some (order_id ord) \<and> vb_storeId body = Some (order_storeId ord)"
  then have "\<forall>ord' \<in> set pre. \<not> orderMatches (vb_orderId body) (vb_storeId body) ord'"
    and "orderMatches (vb_orderId body) (vb_storeId body) ord"
    by (auto simp: orderMatches_def)
  from updateOne_first_match [OF this] a assms
  show "verifyPayment hmac secret e body db =
                (Reply 200 ''Payment verified successfully'',
                 db\<lparr>orders := pre @
                   ord\<lparr> order_status := ''paid'',
                        order_paymentStatus := Some ''completed'',
                        order_razorpayOrderId := Some razorpay_order_id,
                        order_razorpayPaymentId := Some razorpay_payment_id,
                        order_paymentCompletedAt := Some (now e),
                        order_updatedAt := now e \<rparr> # post\<rparr>)"
    by (simp add: verifyPayment_def markPaid_def)
qed

text \<open>
  The theorem with key-and-message concatenation standing for the hash: once at a
  database holding the pending order "o1" of store "s1", once at an empty database.
\<close>

theorem verifyPayment_marks_paid_witness:
  "verifyPayment (@) ''secret'' \<lparr>uuid = ''u'', now = 5000\<rparr>
     \<lparr>vb_razorpay_order_id = Some ''order_9'', vb_razorpay_payment_id = Some ''pay_7'',
      vb_razorpay_signature = Some ''secretorder_9|pay_7'',
      vb_orderId = Some ''o1'', vb_storeId = Some ''s1''\<rparr>
     \<lparr>stores = [], products = [],
      orders = [\<lparr>order_id = ''o1'', order_orderNumber = ''ORD-28000123'', order_storeId = ''s1'',
        order_items = [], order_total = JNum 20, order_status = ''pending'',
        order_customerInfo = JObj [], order_createdAt = 1000, order_updatedAt = 1000,
        order_paymentStatus = None, order_razorpayOrderId = None,
        order_razorpayPaymentId = None, order_paymentCompletedAt = None\<rparr>]\<rparr>
   = (Reply 200 ''Payment verified successfully'',
      \<lparr>stores = [], products = [],
       orders = [\<lparr>order_id = ''o1'', order_orderNumber = ''ORD-28000123'', order_storeId = ''s1'',
        order_items = [], order_total = JNum 20, order_status = ''paid'',
        order_customerInfo = JObj [], order_createdAt = 1000, order_updatedAt = 5000,
        order_paymentStatus = Some ''completed'', order_razorpayOrderId = Some ''order_9'',
        order_razorpayPaymentId = Some ''pay_7'', order_paymentCompletedAt = Some 5000\<rparr>]\<rparr>) \<and>
   verifyPayment (@) ''secret'' \<lparr>uuid = ''u'', now = 5000\<rparr>
     \<lparr>vb_razorpay_order_id = Some ''order_9'', vb_razorpay_payment_id = Some ''pay_7'',
      vb_razorpay_signature = Some ''secretorder_9|pay_7'',
      vb_orderId = Some ''o1'', vb_storeId = Some ''s1''\<rparr>
     \<lparr>stores = [], products = [], orders = []\<rparr>
   = (Failure 404 ''Order not found'', \<lparr>stores = [], products = [], orders = []\<rparr>)"
proof -
  let ?body = "\<lparr>vb_razorpay_order_id = Some ''order_9'', vb_razorpay_payment_id = Some ''pay_7'',
      vb_razorpay_signature = Some ''secretorder_9|pay_7'',
      vb_orderId = Some ''o1'', vb_storeId = Some ''s1''\<rparr>"
  let ?e = "\<lparr>uuid = ''u'', now = 5000\<rparr>"
  let ?ord = "\<lparr>order_id = ''o1'', order_orderNumber = ''ORD-28000123'', order_storeId = ''s1'',
        order_items = [], order_total = JNum 20, order_status = ''pending'',
        order_customerInfo = JObj [], order_createdAt = 1000, order_updatedAt = 1000,
        order_paymentStatus = None, order_razorpayOrderId = None,
        order_razorpayPaymentId = None, order_paymentCompletedAt = None\<rparr>"
  let ?db = "\<lparr>stores = [], products = [], orders = [?ord]\<rparr>"
  let ?empty = "\<lparr>stores = [], products = [], orders = []\<rparr>"
  have i1: "vb_razorpay_order_id ?body = Some ''order_9''" by simp
  have i2: "vb_razorpay_payment_id ?body = Some ''pay_7''" by simp
  have i3: "vb_razorpay_signature ?body = Some ''secretorder_9|pay_7''" by simp
  have n1: "''order_9'' \<noteq> []" by simp
  have n2: "''pay_7'' \<noteq> []" by simp
  have n3: "''secretorder_9|pay_7'' \<noteq> []" by simp
  have sg: "''secretorder_9|pay_7'' = ''secret'' @ (''order_9'' @ ''|'' @ ''pay_7'')" by simp
  note inst = verifyPayment_marks_paid
    [where hmac = "(@)" and secret = "''secret''", OF i1 n1 i2 n2 i3 n3 sg]
  have found: "orders ?db = [] @ ?ord # [] \<and>
      (\<forall>ord' \<in> set []. \<not> (vb_orderId ?body = Some (order_id ord') \<and>
          vb_storeId ?body = Some (order_storeId ord'))) \<and>
      vb_orderId ?body = Some (order_id ?ord) \<and> vb_storeId ?body = Some (order_storeId ?ord)"
    by simp
  have missing: "\<forall>ord \<in> set (orders ?empty).
      \<not> (vb_orderId ?body = Some (order_id ord) \<and> vb_storeId ?body = Some (order_storeId ord))"
    by simp
  have paid: "verifyPayment (@) ''secret'' ?e ?body ?db =
      (Reply 200 ''Payment verified successfully'',
       ?db\<lparr>orders := [] @ ?ord\<lparr> order_status := ''paid'',
                        order_paymentStatus := Some ''completed'',
                        order_razorpayOrderId := Some ''order_9'',
                        order_razorpayPaymentId := Some ''pay_7'',
                        order_paymentCompletedAt := Some (now ?e),
                        order_updatedAt := now ?e \<rparr> # []\<rparr>)"
    by (rule inst [THEN conjunct2, THEN mp, OF found])
  have notfound: "verifyPayment (@) ''secret'' ?e ?body ?empty
      = (Failure 404 ''Order not found'', ?empty)"
    by (rule inst [THEN conjunct1, THEN mp, OF missing])
  show ?thesis
    unfolding paid notfound by simp
qed

text \<open>
  C6, as the code has it. The guard is \<^verbatim>\<open>!amount || !receipt\<close>: a request whose amount
  is absent or zero, or whose receipt is absent or empty, is answered 400 "Amount and
  receipt are required" and no request goes to the gateway. Every other request, a
  negative amount included, sends the gateway one request, whose amount is
  \<^verbatim>\<open>Math.round\<close> of the double product of the amount and 100.
\<close>

theorem initiatePayment_requires_amount_and_receipt:
  "(pb_amount body = None \<or> pb_amount body = Some 0 \<or>
    pb_receipt body = None \<or> pb_receipt body = Some []
      \<longrightarrow> initiatePayment gateway body = (Failure 400 ''Amount and receipt are required'', [])) \<and>
   (pb_amount body = Some amount \<and> amount \<noteq> 0 \<and> pb_receipt body = Some receipt \<and> receipt \<noteq> []
      \<longrightarrow> map gw_amount (snd (initiatePayment gateway body)) = [math_round (js_mul amount 100)])"
  by (auto simp: initiatePayment_def Let_def split: option.splits sum.splits)

text \<open>
  The theorem at the amount 0, and at the amount 1.005, which reaches the gateway as
  100.
\<close>

theorem initiatePayment_requires_amount_and_receipt_witness:
  "initiatePayment Inr
     \<lparr>pb_amount = Some 0, pb_currency = None, pb_receipt = Some ''ORD-28000123'',
      pb_notes = None, pb_storeId = JStr ''s1''\<rparr>
   = (Failure 400 ''Amount and receipt are required'', []) \<and>
   map gw_amount (snd (initiatePayment Inr
     \<lparr>pb_amount = Some (1131529406376837 / 1125899906842624), pb_currency = None,
      pb_receipt = Some ''ORD-28000123'', pb_notes = None, pb_storeId = JStr ''s1''\<rparr>)) = [100]"
  using initiatePayment_requires_amount_and_receipt
    [where body = "\<lparr>pb_amount = Some 0, pb_currency = None, pb_receipt = Some ''ORD-28000123'',
      pb_notes = None, pb_storeId = JStr ''s1''\<rparr>" and gateway = Inr]
    initiatePayment_requires_amount_and_receipt
    [where body = "\<lparr>pb_amount = Some (1131529406376837 / 1125899906842624), pb_currency = None,
      pb_receipt = Some ''ORD-28000123'', pb_notes = None, pb_storeId = JStr ''s1''\<rparr>"
      and amount = "1131529406376837 / 1125899906842624"
      and receipt = "''ORD-28000123''" and gateway = Inr]
    paise_of_1005
  by simp

text \<open>
  As stated, with every amount \<open>\<le> 0\<close> rejected, the claim fails: the amount \<open>-5\<close> passes
  the guard and reaches the gateway as \<open>-500\<close>. The gateway here hands the request back
  as its order handle.
\<close>

theorem initiatePayment_negative_amount_counterexample:
  "initiatePayment Inr
     \<lparr>pb_amount = Some (- 5), pb_currency = None, pb_receipt = Some ''ORD-28000123'',
      pb_notes = None, pb_storeId = JStr ''s1''\<rparr>
   = (Reply 200 \<lparr>gw_amount = - 500, gw_currency = ''INR'', gw_receipt = ''ORD-28000123'',
        gw_notes = [(''storeId'', JStr ''s1'')], gw_payment_capture = 1\<rparr>,
      [\<lparr>gw_amount = - 500, gw_currency = ''INR'', gw_receipt = ''ORD-28000123'',
        gw_notes = [(''storeId'', JStr ''s1'')], gw_payment_capture = 1\<rparr>])"
  using paise_of_minus_5 by (simp add: initiatePayment_def Let_def)

section \<open>Properties of the analytics engine\<close>

text \<open>
  For \<open>x \<ge> 0\<close> the string of \<open>toFixed1\<close> is the decimal numeral, with one digit after the
  point, of the number of tenths nearest to \<open>x\<close>.
\<close>

lemma toFixed1_nearest_tenth:
  assumes "0 \<le> x"
  shows "\<exists>n. toFixed1 x = show_nat (n div 10) @ ''.'' @ show_nat (n mod 10) \<and>
     of_nat n / 10 - 1 / 20 \<le> x \<and> x < of_nat n / 10 + 1 / 20"
proof -
  define n where "n = nat \<lfloor>x * 10 + 1 / 2\<rfloor>"
  have nn: "0 \<le> \<lfloor>x * 10 + 1 / 2\<rfloor>" using assms by simp
  then have n: "of_nat n = (of_int \<lfloor>x * 10 + 1 / 2\<rfloor> :: rat)"
    by (simp add: n_def)
  have "of_int \<lfloor>x * 10 + 1 / 2\<rfloor> \<le> x * 10 + 1 / 2" and "x * 10 + 1 / 2 < of_int \<lfloor>x * 10 + 1 / 2\<rfloor> + 1"
    by linarith+
  then have "of_nat n / 10 - 1 / 20 \<le> x" and "x < of_nat n / 10 + 1 / 20"
    unfolding n by linarith+
  moreover have "toFixed1 x = show_nat (n div 10) @ ''.'' @ show_nat (n mod 10)"
    using assms by (simp add: toFixed1_def n_def Let_def)
  ultimately show ?thesis by blast
qed

text \<open>
  C7. For an existing (active) store the report is produced, with \<^verbatim>\<open>totalOrders\<close> the
  number of the store's orders in the window and \<^verbatim>\<open>completedOrders\<close> the number of those
  whose status is "paid" or "completed". When \<^verbatim>\<open>totalOrders\<close> is 0 the conversion rate is
  the number 0; when it is positive the conversion rate is the string that writes, with
  one digit after the point, the number of tenths nearest to
  \<^verbatim>\<open>completedOrders / totalOrders * 100\<close>.
\<close>

theorem computeAnalytics_conversionRate:
  assumes "validateStoreAccess storeId db"
  shows "\<exists>s. computeAnalytics startDate storeId db = Reply 200 s \<and>
     sum_totalOrders s = length (filter (\<lambda>ord. order_storeId ord = storeId \<and>
        startDate \<le> order_createdAt ord) (orders db)) \<and>
     sum_completedOrders s = length (filter (\<lambda>ord. order_storeId ord = storeId \<and>
        startDate \<le> order_createdAt ord \<and>
        (order_status ord = ''paid'' \<or> order_status ord = ''completed'')) (orders db)) \<and>
     (sum_totalOrders s = 0 \<longrightarrow> sum_conversionRate s = JNum 0) \<and>
     (sum_totalOrders s > 0 \<longrightarrow>
        (\<exists>n. sum_conversionRate s = JStr (show_nat (n div 10) @ ''.'' @ show_nat (n mod 10)) \<and>
           \<bar>of_nat n / 10 - of_nat (sum_completedOrders s) / of_nat (sum_totalOrders s) * 100\<bar>
             \<le> (1 / 20 :: rat)))"
proof -
  define total where "total = length (filter (inWindow storeId startDate) (orders db))"
  define completed where "completed = length
     (filter (\<lambda>ord. inWindow storeId startDate ord \<and> isCompleted ord) (orders db))"
  define rate :: rat where "rate = of_nat completed / of_nat total * 100"
  have "0 \<le> rate" by (simp add: rate_def)
  from toFixed1_nearest_tenth [OF this] obtain n where
    n: "toFixed1 rate = show_nat (n div 10) @ ''.'' @ show_nat (n mod 10)"
       "of_nat n / 10 - 1 / 20 \<le> rate" "rate < of_nat n / 10 + 1 / 20"
    by blast
  then have "\<bar>of_nat n / 10 - rate\<bar> \<le> 1 / 20" by linarith
  with n(1) assms show ?thesis
    unfolding computeAnalytics_def
    by (auto simp: Let_def total_def completed_def rate_def inWindow_def [abs_def] isCompleted_def
        intro!: exI [of _ n])
qed

text \<open>
  The theorem at a store with one paid and one pending order in the window: the
  conversion rate is "50.0".
\<close>

theorem computeAnalytics_conversionRate_witness:
  "validateStoreAccess ''s1''
     \<lparr>stores = [\<lparr>store_id = ''s1'', store_name = ''Acme'', store_slug = ''acme'',
          store_description = [], store_domain = None, store_isActive = True,
          store_createdAt = 1000, store_updatedAt = 1000\<rparr>],
      products = [],
      orders = [\<lparr>order_id = ''o1'', order_orderNumber = ''ORD-00004000'', order_storeId = ''s1'',
        order_items = [], order_total = JNum 20, order_status = ''paid'',
        order_customerInfo = JObj [], order_createdAt = 4000, order_updatedAt = 5000,
        order_paymentStatus = Some ''completed'', order_razorpayOrderId = Some ''order_9'',
        order_razorpayPaymentId = Some ''pay_7'', order_paymentCompletedAt = Some 5000\<rparr>,
       \<lparr>order_id = ''o2'', order_orderNumber = ''ORD-00006000'', order_storeId = ''s1'',
        order_items = [], order_total = JNum 7, order_status = ''pending'',
        order_customerInfo = JObj [], order_createdAt = 6000, order_updatedAt = 6000,
        order_paymentStatus = None, order_razorpayOrderId = None,
        order_razorpayPaymentId = None, order_paymentCompletedAt = None\<rparr>]\<rparr> \<and>
   computeAnalytics 3000 ''s1''
     \<lparr>stores = [\<lparr>store_id = ''s1'', store_name = ''Acme'', store_slug = ''acme'',
          store_description = [], store_domain = None, store_isActive = True,
          store_createdAt = 1000, store_updatedAt = 1000\<rparr>],
      products = [],
      orders = [\<lparr>order_id = ''o1'', order_orderNumber = ''ORD-00004000'', order_storeId = ''s1'',
        order_items = [], order_total = JNum 20, order_status = ''paid'',
        order_customerInfo = JObj [], order_createdAt = 4000, order_updatedAt = 5000,
        order_paymentStatus = Some ''completed'', order_razorpayOrderId = Some ''order_9'',
        order_razorpayPaymentId = Some ''pay_7'', order_paymentCompletedAt = Some 5000\<rparr>,
       \<lparr>order_id = ''o2'', order_orderNumber = ''ORD-00006000'', order_storeId = ''s1'',
        order_items = [], order_total = JNum 7, order_status = ''pending'',
        order_customerInfo = JObj [], order_createdAt = 6000, order_updatedAt = 6000,
        order_paymentStatus = None, order_razorpayOrderId = None,
        order_razorpayPaymentId = None, order_paymentCompletedAt = None\<rparr>]\<rparr>
   = Reply 200 \<lparr>sum_totalOrders = 2, sum_totalRevenue = 20, sum_completedOrders = 1,
       sum_pendingOrders = 1, sum_totalProducts = 0, sum_conversionRate = JStr ''50.0''\<rparr>"
proof -
  have h: "validateStoreAccess ''s1''
     \<lparr>stores = [\<lparr>store_id = ''s1'', store_name = ''Acme'', store_slug = ''acme'',
          store_description = [], store_domain = None, store_isActive = True,
          store_createdAt = 1000, store_updatedAt = 1000\<rparr>],
      products = [],
      orders = [\<lparr>order_id = ''o1'', order_orderNumber = ''ORD-00004000'', order_storeId = ''s1'',
        order_items = [], order_total = JNum 20, order_status = ''paid'',
        order_customerInfo = JObj [], order_createdAt = 4000, order_updatedAt = 5000,
        order_paymentStatus = Some ''completed'', order_razorpayOrderId = Some ''order_9'',
        order_razorpayPaymentId = Some ''pay_7'', order_paymentCompletedAt = Some 5000\<rparr>,
       \<lparr>order_id = ''o2'', order_orderNumber = ''ORD-00006000'', order_storeId = ''s1'',
        order_items = [], order_total = JNum 7, order_status = ''pending'',
        order_customerInfo = JObj [], order_createdAt = 6000, order_updatedAt = 6000,
        order_paymentStatus = None, order_razorpayOrderId = None,
        order_razorpayPaymentId = None, order_paymentCompletedAt = None\<rparr>]\<rparr>"
    by (simp add: validateStoreAccess_def)
  have f: "\<lfloor>(1001::rat) / 2\<rfloor> = 500"
    by (simp add: floor_eq_iff)
  have r: "toFixed1 50 = ''50.0''"
    by (simp add: toFixed1_def f show_nat.simps)
  show ?thesis
    using h computeAnalytics_conversionRate [OF h, of 3000]
    by (simp add: computeAnalytics_def inWindow_def isCompleted_def r Let_def)
qed

end
